theory Spec2Isabelle
  imports Main "HOL-Library.AList"
begin

section \<open>Python values, exceptions and the request context\<close>

text \<open>
  Values that flow through \<^verbatim>\<open>st2common/models/api/base.py\<close> and
  \<^verbatim>\<open>st2common/models/api/execution.py\<close>. A dict with string keys is an
  association list; \<open>PyObject\<close> is an instance, given by its class name and its
  instance attributes (\<^verbatim>\<open>vars(self)\<close>).
\<close>

datatype pyval =
    PyNone
  | PyBool bool
  | PyInt int
  | PyStr string
  | PyDatetime int
  | PyList "pyval list"
  | PyDict "(string \<times> pyval) list"
  | PyObject string "(string \<times> pyval) list"

type_synonym dict = "(string \<times> pyval) list"

type_synonym headers = "(string \<times> string) list"

text \<open>Python truthiness, as used by \<^verbatim>\<open>if body\<close>, \<^verbatim>\<open>if value\<close>, \<^verbatim>\<open>not value\<close>.\<close>

fun truthy :: "pyval \<Rightarrow> bool" where
  "truthy PyNone = False"
| "truthy (PyBool b) = b"
| "truthy (PyInt i) = (i \<noteq> 0)"
| "truthy (PyStr s) = (s \<noteq> [])"
| "truthy (PyDatetime t) = True"
| "truthy (PyList xs) = (xs \<noteq> [])"
| "truthy (PyDict d) = (d \<noteq> [])"
| "truthy (PyObject c d) = True"

text \<open>\<^verbatim>\<open>x.__class__.__name__\<close>.\<close>

fun class_name :: "pyval \<Rightarrow> string" where
  "class_name PyNone = ''NoneType''"
| "class_name (PyBool b) = ''bool''"
| "class_name (PyInt i) = ''int''"
| "class_name (PyStr s) = ''str''"
| "class_name (PyDatetime t) = ''datetime''"
| "class_name (PyList xs) = ''list''"
| "class_name (PyDict d) = ''dict''"
| "class_name (PyObject c d) = c"

text \<open>
  Exceptions. The two webob classes carry the message and their
  \<^verbatim>\<open>wsgi_response.status_code\<close>, \<^verbatim>\<open>wsgi_response.body\<close> and \<^verbatim>\<open>headers\<close>;
  \<^verbatim>\<open>HTTPUnauthorized\<close> is a subclass of \<^verbatim>\<open>HTTPException\<close>. \<open>OtherException\<close> is any
  other subclass of \<^verbatim>\<open>Exception\<close> (ValueError, TypeError, ...); \<open>BaseExceptionOnly\<close> is
  an exception that derives from \<^verbatim>\<open>BaseException\<close> but not from \<^verbatim>\<open>Exception\<close>
  (KeyboardInterrupt, SystemExit, GeneratorExit), which \<^verbatim>\<open>except Exception\<close> lets through.
\<close>

datatype exn =
    HTTPUnauthorized string int pyval headers
  | HTTPException string int pyval headers
  | ValidationError string
  | IndexError string
  | KeyError string
  | AssertionError string
  | OtherException string
  | BaseExceptionOnly string

fun message :: "exn \<Rightarrow> string" where
  "message (HTTPUnauthorized m c b h) = m"
| "message (HTTPException m c b h) = m"
| "message (ValidationError m) = m"
| "message (IndexError m) = m"
| "message (KeyError m) = m"
| "message (AssertionError m) = m"
| "message (OtherException m) = m"
| "message (BaseExceptionOnly m) = m"

fun is_Exception :: "exn \<Rightarrow> bool" where
  "is_Exception (BaseExceptionOnly m) = False"
| "is_Exception e = True"

fun is_HTTPException :: "exn \<Rightarrow> bool" where
  "is_HTTPException (HTTPUnauthorized m c b h) = True"
| "is_HTTPException (HTTPException m c b h) = True"
| "is_HTTPException e = False"

fun is_ValidationError :: "exn \<Rightarrow> bool" where
  "is_ValidationError (ValidationError m) = True"
| "is_ValidationError e = False"

fun is_IndexError :: "exn \<Rightarrow> bool" where
  "is_IndexError (IndexError m) = True"
| "is_IndexError e = False"

fun is_KeyError :: "exn \<Rightarrow> bool" where
  "is_KeyError (KeyError m) = True"
| "is_KeyError e = False"

text \<open>\<^verbatim>\<open>http_client\<close> constants used by the module.\<close>

definition BAD_REQUEST :: int where "BAD_REQUEST = 400"
definition FORBIDDEN :: int where "FORBIDDEN = 403"
definition METHOD_NOT_ALLOWED :: int where "METHOD_NOT_ALLOWED = 405"
definition INTERNAL_SERVER_ERROR :: int where "INTERNAL_SERVER_ERROR = 500"
definition NOT_IMPLEMENTED :: int where "NOT_IMPLEMENTED = 501"

definition RESPONSE_LOGGING_METHOD_NAME_BLACKLIST :: "string list" where
  "RESPONSE_LOGGING_METHOD_NAME_BLACKLIST = [''get_all'']"

definition RESPONSE_LOGGING_CONTROLLER_NAME_BLACKLIST :: "string list" where
  "RESPONSE_LOGGING_CONTROLLER_NAME_BLACKLIST =
     [''ActionExecutionChildrenController'', ''ActionExecutionAttributeController'',
      ''ActionExecutionsController'']"

text \<open>
  Log records: \<^verbatim>\<open>LOG.info(msg, extra=values)\<close> keeps the message template and the values,
  \<^verbatim>\<open>LOG.warning\<close> of the coercion loop keeps the argument and the function name,
  \<^verbatim>\<open>LOG.debug\<close> and \<^verbatim>\<open>LOG.exception\<close> keep the exception.
\<close>

datatype log_entry =
    LogInfo string dict
  | LogWarning string string
  | LogDebug exn
  | LogException exn

text \<open>
  The mutable context of one call: \<^verbatim>\<open>pecan.response.status\<close>,
  \<^verbatim>\<open>pecan.response.headers\<close>, the log, and the record of the invocations of the wrapped
  function (positional and keyword arguments of each call), which is what "the function
  is never invoked" and "the function never receives" are stated on.
\<close>

record world =
  resp_status :: int
  resp_headers :: headers
  LOG :: "log_entry list"
  invoked :: "(pyval list \<times> dict) list"

text \<open>\<^verbatim>\<open>pecan.request\<close>: the keys of \<^verbatim>\<open>params\<close>, and \<^verbatim>\<open>json\<close>, which may raise.\<close>

record request =
  req_params :: "string list"
  req_method :: pyval
  req_path :: pyval
  req_remote_addr :: pyval
  req_body :: string
  req_json :: "exn + pyval"

text \<open>
  The wrapped controller function: \<^verbatim>\<open>f.__name__\<close>, \<^verbatim>\<open>inspect.getargspec(f).args\<close>, and
  its behaviour, which may read and set the response status and headers and either returns
  a value or raises.
\<close>

record wrapped =
  f_name :: string
  f_argspec :: "string list"
  f_call :: "pyval list \<Rightarrow> dict \<Rightarrow> int \<times> headers \<Rightarrow> (exn + pyval) \<times> (int \<times> headers)"

text \<open>The parameters of \<^verbatim>\<open>jsexpose\<close>. A type of \<^verbatim>\<open>arg_types\<close> is a callable that may raise.\<close>

record jsexpose_args =
  arg_types :: "(pyval \<Rightarrow> exn + pyval) list option"
  body_cls :: "(dict \<Rightarrow> exn + pyval) option"
  status_code :: "int option"
  content_type :: string

datatype outcome = Returned pyval | Propagated exn

section \<open>BaseAPI\<close>

text \<open>
  An instance is its class name and its attribute dict (\<^verbatim>\<open>vars(self)\<close>). The values
  here have no sharing: a dict is its items. What the construction needs to know of a
  value is whether it is a dict (\<open>dict_of\<close>) and the name of its type (\<open>type_name\<close>, for
  the messages of \<^verbatim>\<open>TypeError\<close>). The construction on a store, where a dict given for
  \<^verbatim>\<open>__dict__\<close> is shared with the instance, is in the section on document models.
\<close>

record 'v value_kind =
  dict_of :: "'v \<Rightarrow> (string \<times> 'v) list option"
  type_name :: "'v \<Rightarrow> string"

record 'v py_instance =
  inst_class :: string
  inst_vars :: "(string \<times> 'v) list"

definition quoted :: "string \<Rightarrow> string" where
  "quoted s = [CHR 0x27] @ s @ [CHR 0x27]"

text \<open>
  \<^verbatim>\<open>setattr(self, key, value)\<close> on an instance of a class without \<^verbatim>\<open>__slots__\<close>: it
  raises \<^verbatim>\<open>TypeError\<close> for \<^verbatim>\<open>__class__\<close> (no value here is a class) and for \<^verbatim>\<open>__dict__\<close>
  with a value that is not a dict, and \<^verbatim>\<open>AttributeError\<close> for \<^verbatim>\<open>__weakref__\<close>; a dict given
  for \<^verbatim>\<open>__dict__\<close> replaces the attributes; any other key is set in the attribute dict.
\<close>

definition setattr :: "'v value_kind \<Rightarrow> string \<times> 'v \<Rightarrow> 'v py_instance \<Rightarrow> exn + 'v py_instance" where
  "setattr V item self =
     (if fst item = ''__class__''
      then Inl (OtherException (''__class__ must be set to new-style class, not ''
                  @ quoted (type_name V (snd item)) @ '' object''))
      else if fst item = ''__dict__''
      then (case dict_of V (snd item) of
              None \<Rightarrow> Inl (OtherException (''__dict__ must be set to a dictionary, not a ''
                              @ quoted (type_name V (snd item))))
            | Some d \<Rightarrow> Inr (self\<lparr>inst_vars := d\<rparr>))
      else if fst item = ''__weakref__''
      then Inl (OtherException (''attribute '' @ quoted ''__weakref__'' @ '' of ''
                  @ quoted (inst_class self) @ '' objects is not writable''))
      else Inr (self\<lparr>inst_vars := AList.update (fst item) (snd item) (inst_vars self)\<rparr>))"

text \<open>The keys for which \<^verbatim>\<open>setattr\<close> does not set an entry of the attribute dict.\<close>

definition reserved_names :: "string set" where
  "reserved_names = {''__class__'', ''__dict__'', ''__weakref__''}"

text \<open>The loop \<^verbatim>\<open>for key, value in kw.items(): setattr(self, key, value)\<close>.\<close>

fun setattrs ::
  "'v value_kind \<Rightarrow> (string \<times> 'v) list \<Rightarrow> 'v py_instance \<Rightarrow> (exn + unit) \<times> 'v py_instance" where
  "setattrs V [] self = (Inr (), self)"
| "setattrs V (item # items) self =
     (case setattr V item self of
        Inl e \<Rightarrow> (Inl e, self)
      | Inr self' \<Rightarrow> setattrs V items self')"

text \<open>
  \<^verbatim>\<open>BaseAPI.__init__(self, **kw)\<close>: the validator built from the class's schema validates
  \<open>kw\<close>; then every item of \<open>kw\<close> is set as an attribute. \<open>self\<close> is the instance on
  entry; the result is what was raised, if anything, and the instance on exit.
  \<open>VALIDATOR\<close> (from \<^verbatim>\<open>st2common.util.schema\<close>) is a parameter: \<open>VALIDATOR schema kw\<close> is
  the exception that \<^verbatim>\<open>VALIDATOR(schema).validate(kw)\<close> raises.
\<close>

definition BaseAPI_init ::
  "'v value_kind \<Rightarrow> (pyval \<Rightarrow> (string \<times> 'v) list \<Rightarrow> exn option) \<Rightarrow> pyval \<Rightarrow>
     (string \<times> 'v) list \<Rightarrow> 'v py_instance \<Rightarrow> (exn + unit) \<times> 'v py_instance" where
  "BaseAPI_init V VALIDATOR schema kw self =
     (case VALIDATOR schema kw of
        Some e \<Rightarrow> (Inl e, self)
      | None \<Rightarrow> setattrs V kw self)"

text \<open>
  \<^verbatim>\<open>cls(**kw)\<close>: a key \<open>self\<close> collides with the first parameter of \<^verbatim>\<open>__init__\<close> and the
  call raises \<^verbatim>\<open>TypeError\<close> before \<^verbatim>\<open>__init__\<close> runs; otherwise a new instance of \<open>cls\<close> is
  initialised by \<open>BaseAPI_init\<close>.
\<close>

definition instantiate ::
  "'v value_kind \<Rightarrow> string \<Rightarrow> (pyval \<Rightarrow> (string \<times> 'v) list \<Rightarrow> exn option) \<Rightarrow> pyval \<Rightarrow>
     (string \<times> 'v) list \<Rightarrow> exn + 'v py_instance" where
  "instantiate V cls VALIDATOR schema kw =
     (if ''self'' \<in> fst ` set kw
      then Inl (OtherException (''__init__() got multiple values for keyword argument ''
                  @ quoted ''self''))
      else case BaseAPI_init V VALIDATOR schema kw \<lparr>inst_class = cls, inst_vars = []\<rparr> of
             (Inl e, self) \<Rightarrow> Inl e
           | (Inr u, self) \<Rightarrow> Inr self)"

text \<open>The name of the type of a value, as the messages of \<^verbatim>\<open>TypeError\<close> give it.\<close>

definition py_type_name :: "pyval \<Rightarrow> string" where
  "py_type_name v = (case v of PyDatetime t \<Rightarrow> ''datetime.datetime'' | _ \<Rightarrow> class_name v)"

definition py_values :: "pyval value_kind" where
  "py_values = \<lparr>dict_of = (\<lambda>v. case v of PyDict d \<Rightarrow> Some d | _ \<Rightarrow> None),
                 type_name = py_type_name\<rparr>"

definition BaseAPI_new ::
  "string \<Rightarrow> (pyval \<Rightarrow> dict \<Rightarrow> exn option) \<Rightarrow> pyval \<Rightarrow> dict \<Rightarrow> exn + pyval" where
  "BaseAPI_new cls VALIDATOR schema kw =
     (case instantiate py_values cls VALIDATOR schema kw of
        Inl e \<Rightarrow> Inl e
      | Inr self \<Rightarrow> Inr (PyObject (inst_class self) (inst_vars self)))"

section \<open>The error response and the jsexpose wrapper\<close>

text \<open>
  \<^verbatim>\<open>_handle_error(e, status_code, body=None, headers=None)\<close>. The assertion that the error
  body is a dict raises \<^verbatim>\<open>AssertionError\<close> after the status and the headers are set.
  \<open>json_encode\<close> (from \<^verbatim>\<open>st2common.util.jsonify\<close>) is a parameter.
\<close>

definition handle_error ::
  "(pyval \<Rightarrow> pyval) \<Rightarrow> exn \<Rightarrow> int \<Rightarrow> pyval \<Rightarrow> headers option \<Rightarrow> world \<Rightarrow> (exn + pyval) \<times> world" where
  "handle_error json_encode e code body hdrs s =
     (let s1 = s\<lparr>resp_status := code\<rparr>;
          s2 = (case hdrs of
                  None \<Rightarrow> s1
                | Some h \<Rightarrow> if h \<noteq> [] then s1\<lparr>resp_headers := h\<rparr> else s1);
          error_body = (if truthy body then body else PyDict [])
      in case error_body of
           PyDict d \<Rightarrow>
             (Inr (json_encode (PyDict (AList.update ''faultstring'' (PyStr (message e)) d))), s2)
         | _ \<Rightarrow> (Inl (AssertionError ''''), s2))"

definition request_info :: "request \<Rightarrow> dict" where
  "request_info req =
     [(''method'', req_method req), (''path'', req_path req),
      (''remote_addr'', req_remote_addr req)]"

definition log_warning_missing :: "string \<Rightarrow> string \<Rightarrow> world \<Rightarrow> world" where
  "log_warning_missing name fname s = s\<lparr>LOG := LOG s @ [LogWarning name fname]\<rparr>"

text \<open>
  The handler \<^verbatim>\<open>except IndexError\<close> of the coercion loop:
  \<^verbatim>\<open>kwargs[name] = types.pop(0)(kwargs[name])\<close>. The callee \<^verbatim>\<open>types.pop(0)\<close> is evaluated
  first (IndexError on an empty list: the warning), then \<^verbatim>\<open>kwargs[name]\<close> (KeyError: pass),
  then the call. An IndexError or KeyError raised by the type itself is caught by the same
  handlers; any other exception leaves the loop.
\<close>

definition coerce_kwarg ::
  "string \<Rightarrow> string \<Rightarrow> (pyval \<Rightarrow> exn + pyval) list \<Rightarrow> dict \<Rightarrow> world \<Rightarrow>
     (exn + (pyval \<Rightarrow> exn + pyval) list \<times> dict) \<times> world" where
  "coerce_kwarg fname name types kwargs s =
     (case types of
        [] \<Rightarrow> (Inr ([], kwargs), log_warning_missing name fname s)
      | t # types' \<Rightarrow>
          (case map_of kwargs name of
             None \<Rightarrow> (Inr (types', kwargs), s)
           | Some x \<Rightarrow>
               (case t x of
                  Inr v \<Rightarrow> (Inr (types', AList.update name v kwargs), s)
                | Inl e \<Rightarrow>
                    if is_IndexError e then (Inr (types', kwargs), log_warning_missing name fname s)
                    else if is_KeyError e then (Inr (types', kwargs), s)
                    else (Inl e, s))))"

text \<open>
  The body of the inner \<^verbatim>\<open>try\<close> of the loop: \<^verbatim>\<open>a = args.pop(0)\<close>, then
  \<^verbatim>\<open>more.append(types.pop(0)(a))\<close>. Each \<^verbatim>\<open>pop\<close> that succeeded has removed its element
  when a later step raises.
\<close>

datatype positional =
    Converted pyval "pyval list" "(pyval \<Rightarrow> exn + pyval) list"
  | CaughtIndexError "pyval list" "(pyval \<Rightarrow> exn + pyval) list"
  | Raised exn

definition coerce_positional ::
  "pyval list \<Rightarrow> (pyval \<Rightarrow> exn + pyval) list \<Rightarrow> positional" where
  "coerce_positional args types =
     (case args of
        [] \<Rightarrow> CaughtIndexError [] types
      | a # args' \<Rightarrow>
          (case types of
             [] \<Rightarrow> CaughtIndexError args' []
           | t # types' \<Rightarrow>
               (case t a of
                  Inr v \<Rightarrow> Converted v args' types'
                | Inl e \<Rightarrow> if is_IndexError e then CaughtIndexError args' types' else Raised e)))"

text \<open>The loop \<^verbatim>\<open>for name in names\<close>; the result is \<open>(args, more', kwargs)\<close> after it.\<close>

fun coerce_args ::
  "string \<Rightarrow> string list \<Rightarrow> pyval list \<Rightarrow> (pyval \<Rightarrow> exn + pyval) list \<Rightarrow> pyval list \<Rightarrow> dict \<Rightarrow>
     world \<Rightarrow> (exn + pyval list \<times> pyval list \<times> dict) \<times> world" where
  "coerce_args fname [] args types more' kwargs s = (Inr (args, more', kwargs), s)"
| "coerce_args fname (name # names) args types more' kwargs s =
     (case coerce_positional args types of
        Converted v args' types' \<Rightarrow> coerce_args fname names args' types' (more' @ [v]) kwargs s
      | Raised e \<Rightarrow> (Inl e, s)
      | CaughtIndexError args' types' \<Rightarrow>
          (case coerce_kwarg fname name types' kwargs s of
             (Inl e, s') \<Rightarrow> (Inl e, s')
           | (Inr (types'', kwargs'), s') \<Rightarrow>
               coerce_args fname names args' types'' more' kwargs' s'))"

text \<open>
  From \<^verbatim>\<open>args = list(args)\<close> to the end of the loop: \<^verbatim>\<open>more = [args.pop(0)]\<close> raises
  IndexError when there is no positional argument; the loop runs when \<^verbatim>\<open>types\<close> is a
  non-empty list, over \<^verbatim>\<open>argspec.args[1:]\<close>.
\<close>

definition coerce_phase ::
  "jsexpose_args \<Rightarrow> wrapped \<Rightarrow> pyval list \<Rightarrow> dict \<Rightarrow> world \<Rightarrow>
     (exn + pyval list \<times> pyval list \<times> dict) \<times> world" where
  "coerce_phase cfg f args kwargs s =
     (case args of
        [] \<Rightarrow> (Inl (IndexError ''pop from empty list''), s)
      | controller # args' \<Rightarrow>
          (case arg_types cfg of
             None \<Rightarrow> (Inr (args', [controller], kwargs), s)
           | Some types \<Rightarrow>
               if types \<noteq> []
               then coerce_args (f_name f) (tl (f_argspec f)) args' types [controller] kwargs s
               else (Inr (args', [controller], kwargs), s)))"

text \<open>
  The request body: \<^verbatim>\<open>data = pecan.request.json\<close> when \<^verbatim>\<open>pecan.request.body\<close> is not
  empty, else \<^verbatim>\<open>{}\<close>; \<^verbatim>\<open>body_cls(**data)\<close> raises TypeError when \<open>data\<close> is not a mapping.
\<close>

definition request_data :: "request \<Rightarrow> exn + pyval" where
  "request_data req = (if req_body req \<noteq> [] then req_json req else Inr (PyDict []))"

definition construct_body :: "(dict \<Rightarrow> exn + pyval) \<Rightarrow> pyval \<Rightarrow> exn + pyval" where
  "construct_body cls data =
     (case data of
        PyDict d \<Rightarrow> cls d
      | _ \<Rightarrow> Inl (OtherException ''argument after ** must be a mapping''))"

text \<open>
  The inner \<^verbatim>\<open>try\<close> around \<^verbatim>\<open>result = f(*args, **kwargs)\<close> with its two handlers.
  \<open>controller\<close> is \<^verbatim>\<open>args[0]\<close> of the call. Each handler of the wrapper evaluates
  \<^verbatim>\<open>str(e)\<close> for its log message before anything else, and \<^verbatim>\<open>str(e)\<close> can raise (in
  Python 2, \<^verbatim>\<open>UnicodeEncodeError\<close> for a unicode message that is not ASCII): the parameter
  \<open>exc_str e\<close> is the exception that \<^verbatim>\<open>str(e)\<close> raises, if it raises. An exception
  raised in a handler of the inner \<^verbatim>\<open>try\<close> goes on to \<^verbatim>\<open>except Exception\<close>.
\<close>

definition call_wrapped ::
  "(exn \<Rightarrow> exn option) \<Rightarrow> (pyval \<Rightarrow> pyval) \<Rightarrow> jsexpose_args \<Rightarrow> wrapped \<Rightarrow> request \<Rightarrow> pyval \<Rightarrow> pyval list \<Rightarrow> dict \<Rightarrow>
     world \<Rightarrow> (exn + pyval) \<times> world" where
  "call_wrapped exc_str json_encode cfg f req controller args kwargs s =
     (let s0 = s\<lparr>invoked := invoked s @ [(args, kwargs)]\<rparr>;
          (r, resp) = f_call f args kwargs (resp_status s0, resp_headers s0);
          s1 = s0\<lparr>resp_status := fst resp, resp_headers := snd resp\<rparr>
      in case r of
           Inr result \<Rightarrow>
             (let code = (case status_code cfg of
                            None \<Rightarrow> resp_status s1
                          | Some c \<Rightarrow> if c \<noteq> 0 then c else resp_status s1);
                  values = request_info req @ [(''status_code'', PyInt code)];
                  log_result = (f_name f \<notin> set RESPONSE_LOGGING_METHOD_NAME_BLACKLIST
                                \<and> class_name controller
                                    \<notin> set RESPONSE_LOGGING_CONTROLLER_NAME_BLACKLIST);
                  entry = (if log_result
                           then LogInfo ''%(method)s %(path)s result=%(result)s''
                                  (values @ [(''result'', result)])
                           else LogInfo ''%(method)s %(path)s'' values);
                  s2 = s1\<lparr>LOG := LOG s1 @ [entry]\<rparr>;
                  s3 = (case status_code cfg of
                          None \<Rightarrow> s2
                        | Some c \<Rightarrow> if c \<noteq> 0 then s2\<lparr>resp_status := c\<rparr> else s2)
              in if content_type cfg = ''application/json''
                 then (Inr (json_encode result), s3)
                 else (Inr result, s3))
         | Inl e \<Rightarrow>
             (case e of
                HTTPUnauthorized m c b h \<Rightarrow>
                  (case exc_str e of
                     Some x \<Rightarrow> (Inl x, s1)
                   | None \<Rightarrow>
                       handle_error json_encode e c b (Some h)
                         (s1\<lparr>LOG := LOG s1 @ [LogDebug e]\<rparr>))
              | HTTPException m c b h \<Rightarrow>
                  (case exc_str e of
                     Some x \<Rightarrow> (Inl x, s1)
                   | None \<Rightarrow>
                       handle_error json_encode e c b (Some h)
                         (s1\<lparr>LOG := LOG s1 @ [LogException e]\<rparr>))
              | _ \<Rightarrow> (Inl e, s1)))"

text \<open>
  The body of the outer \<^verbatim>\<open>try\<close>: coercion, request body, the no-op status codes, the call.
  \<open>Inr v\<close> is a \<^verbatim>\<open>return v\<close>, \<open>Inl e\<close> an exception that reaches \<^verbatim>\<open>except Exception\<close>.
\<close>

definition noop_codes :: "int list" where
  "noop_codes = [NOT_IMPLEMENTED, METHOD_NOT_ALLOWED, FORBIDDEN]"

definition after_body ::
  "(exn \<Rightarrow> exn option) \<Rightarrow> (pyval \<Rightarrow> pyval) \<Rightarrow> jsexpose_args \<Rightarrow> wrapped \<Rightarrow> request \<Rightarrow> pyval \<Rightarrow> pyval list \<Rightarrow> pyval list \<Rightarrow>
     dict \<Rightarrow> world \<Rightarrow> (exn + pyval) \<times> world" where
  "after_body exc_str json_encode cfg f req controller more' args kwargs s =
     (case status_code cfg of
        None \<Rightarrow> call_wrapped exc_str json_encode cfg f req controller (more' @ args) kwargs s
      | Some c \<Rightarrow>
          if c \<noteq> 0 \<and> c \<in> set noop_codes
          then (Inr (json_encode PyNone), s\<lparr>resp_status := c\<rparr>)
          else call_wrapped exc_str json_encode cfg f req controller (more' @ args) kwargs s)"

text \<open>
  The request-body step. The inner \<^verbatim>\<open>try\<close> covers \<^verbatim>\<open>body_cls(**data)\<close> only:
  \<open>Inr (Inl e)\<close> is the ValidationError it catches, \<open>Inl e\<close> an exception that goes
  on to \<^verbatim>\<open>except Exception\<close>, \<open>Inr (Inr objs)\<close> what is appended to \<^verbatim>\<open>more\<close>.
\<close>

definition body_phase :: "jsexpose_args \<Rightarrow> request \<Rightarrow> exn + (exn + pyval list)" where
  "body_phase cfg req =
     (case body_cls cfg of
        None \<Rightarrow> Inr (Inr [])
      | Some cls \<Rightarrow>
          (case request_data req of
             Inl e \<Rightarrow> Inl e
           | Inr data \<Rightarrow>
               (case construct_body cls data of
                  Inl e \<Rightarrow> if is_ValidationError e then Inr (Inl e) else Inl e
                | Inr obj \<Rightarrow> Inr (Inr [obj]))))"

definition callfunction_try ::
  "(exn \<Rightarrow> exn option) \<Rightarrow> (pyval \<Rightarrow> pyval) \<Rightarrow> jsexpose_args \<Rightarrow> wrapped \<Rightarrow> request \<Rightarrow> pyval \<Rightarrow> pyval list \<Rightarrow> dict \<Rightarrow>
     world \<Rightarrow> (exn + pyval) \<times> world" where
  "callfunction_try exc_str json_encode cfg f req controller args kwargs s =
     (case coerce_phase cfg f args kwargs s of
        (Inl e, s1) \<Rightarrow> (Inl e, s1)
      | (Inr (args1, more', kwargs1), s1) \<Rightarrow>
          (case body_phase cfg req of
             Inl e \<Rightarrow> (Inl e, s1)
           | Inr (Inl e) \<Rightarrow> handle_error json_encode e BAD_REQUEST PyNone None s1
           | Inr (Inr objs) \<Rightarrow>
               after_body exc_str json_encode cfg f req controller (more' @ objs) args1 kwargs1 s1))"

text \<open>
  Before the \<^verbatim>\<open>try\<close>: the controller, the log of the incoming request (with the keyword
  arguments as received), and the removal of the auth token from the keyword arguments.
  \<open>token\<close> is \<^verbatim>\<open>QUERY_PARAM_ATTRIBUTE_NAME\<close> (from \<^verbatim>\<open>st2common.constants.auth\<close>), a
  parameter.
\<close>

definition controller_of :: "pyval list \<Rightarrow> pyval" where
  "controller_of args = (case args of [] \<Rightarrow> PyNone | a # as \<Rightarrow> a)"

definition log_request :: "request \<Rightarrow> dict \<Rightarrow> world \<Rightarrow> world" where
  "log_request req kwargs s =
     s\<lparr>LOG := LOG s @ [LogInfo ''%(method)s %(path)s with filters=%(filters)s''
                          (request_info req @ [(''filters'', PyDict kwargs)])]\<rparr>"

definition strip_token :: "string \<Rightarrow> request \<Rightarrow> dict \<Rightarrow> dict" where
  "strip_token token req kwargs =
     (if token \<in> set (req_params req) \<and> token \<in> fst ` set kwargs
      then AList.delete token kwargs else kwargs)"

text \<open>
  \<^verbatim>\<open>callfunction(*args, **kwargs)\<close>, the wrapper that \<^verbatim>\<open>jsexpose(...)\<close> returns for \<open>f\<close>.
  \<^verbatim>\<open>except Exception\<close> lets an exception that is not an \<^verbatim>\<open>Exception\<close> propagate, and
  an exception raised by \<^verbatim>\<open>str(e)\<close> in its handler leaves the wrapper.
\<close>

definition callfunction ::
  "(exn \<Rightarrow> exn option) \<Rightarrow> (pyval \<Rightarrow> pyval) \<Rightarrow> string \<Rightarrow> jsexpose_args \<Rightarrow> wrapped \<Rightarrow> request \<Rightarrow> pyval list \<Rightarrow> dict \<Rightarrow>
     world \<Rightarrow> outcome \<times> world" where
  "callfunction exc_str json_encode token cfg f req args kwargs s =
     (case callfunction_try exc_str json_encode cfg f req (controller_of args) args
             (strip_token token req kwargs) (log_request req kwargs s) of
        (Inr v, s1) \<Rightarrow> (Returned v, s1)
      | (Inl e, s1) \<Rightarrow>
          if is_Exception e
          then (case exc_str e of
                  Some x \<Rightarrow> (Propagated x, s1)
                | None \<Rightarrow>
                    (case handle_error json_encode e INTERNAL_SERVER_ERROR PyNone None
                            (s1\<lparr>LOG := LOG s1 @ [LogException e]\<rparr>) of
                       (Inr v, s2) \<Rightarrow> (Returned v, s2)
                     | (Inl e', s2) \<Rightarrow> (Propagated e', s2)))
          else (Propagated e, s1))"

text \<open>The condition \<^verbatim>\<open>status_code and status_code in noop_codes\<close>.\<close>

definition is_noop :: "jsexpose_args \<Rightarrow> bool" where
  "is_noop cfg = (case status_code cfg of None \<Rightarrow> False | Some c \<Rightarrow> c \<noteq> 0 \<and> c \<in> set noop_codes)"

section \<open>Conversion from and to document models\<close>

text \<open>
  The conversions mutate dicts in place (\<^verbatim>\<open>doc.pop\<close>, \<^verbatim>\<open>doc['id'] = ...\<close>,
  \<^verbatim>\<open>doc['liveaction']['start_timestamp'] = ...\<close>), and a dict may be shared between a
  document, an API object and a document model. So here a dict lives in a store, at an
  address, and a value held in a dict or in an attribute is immediate or a reference
  \<open>HRef\<close> to a dict in the store.
\<close>

datatype hval =
    HNone
  | HBool bool
  | HInt int
  | HStr string
  | HDatetime int
  | HList "hval list"
  | HRef nat

type_synonym hdict = "(string \<times> hval) list"

type_synonym heap = "nat \<Rightarrow> hdict option"

fun htruthy :: "heap \<Rightarrow> hval \<Rightarrow> bool" where
  "htruthy h HNone = False"
| "htruthy h (HBool b) = b"
| "htruthy h (HInt i) = (i \<noteq> 0)"
| "htruthy h (HStr s) = (s \<noteq> [])"
| "htruthy h (HDatetime t) = True"
| "htruthy h (HList xs) = (xs \<noteq> [])"
| "htruthy h (HRef a) = (case h a of None \<Rightarrow> True | Some D \<Rightarrow> D \<noteq> [])"

text \<open>
  What the two modules use and do not define: \<^verbatim>\<open>model.to_mongo()\<close> and
  \<^verbatim>\<open>util_mongodb.unescape_chars\<close> (each returns the address of a dict and the store after
  the call), Python's \<^verbatim>\<open>str\<close>, \<^verbatim>\<open>isotime.format(_, offset=False)\<close> and \<^verbatim>\<open>isotime.parse\<close>,
  the validator of the class's schema, and of \<^verbatim>\<open>ActionExecutionDB\<close> the \<^verbatim>\<open>required\<close> flag of
  each field and the attributes of a new instance; \<open>default_of attr\<close> is
  \<^verbatim>\<open>meta.get('default', None)\<close> of the property's schema, which for the properties taken from
  other API classes is not in the module. \<open>cls_name\<close> is the name of the class that the
  class methods are called on.
\<close>

record externals =
  to_mongo :: "nat \<Rightarrow> heap \<Rightarrow> nat \<times> heap"
  unescape_chars :: "nat \<Rightarrow> heap \<Rightarrow> nat \<times> heap"
  str :: "hval \<Rightarrow> string"
  isotime_format :: "hval \<Rightarrow> exn + hval"
  isotime_parse :: "hval \<Rightarrow> exn + hval"
  validate :: "heap \<Rightarrow> hdict \<Rightarrow> exn option"
  required :: "string \<Rightarrow> bool"
  default_of :: "string \<Rightarrow> hval"
  new_model :: hdict
  cls_name :: string

text \<open>\<^verbatim>\<open>d[k]\<close> on a dict, and \<^verbatim>\<open>v[k]\<close> on a value, which must refer to a dict.\<close>

definition getitem :: "hdict \<Rightarrow> string \<Rightarrow> exn + hval" where
  "getitem d k = (case map_of d k of None \<Rightarrow> Inl (KeyError k) | Some v \<Rightarrow> Inr v)"

definition subscript :: "heap \<Rightarrow> hval \<Rightarrow> string \<Rightarrow> exn + hval" where
  "subscript h v k =
     (case v of
        HRef a \<Rightarrow>
          (case h a of
             None \<Rightarrow> Inl (OtherException ''dangling reference'')
           | Some d \<Rightarrow> getitem d k)
      | _ \<Rightarrow> Inl (OtherException ''object is not subscriptable''))"

text \<open>\<^verbatim>\<open>v[k] = x\<close>, for a value that refers to a dict.\<close>

definition setitem :: "heap \<Rightarrow> hval \<Rightarrow> string \<Rightarrow> hval \<Rightarrow> heap" where
  "setitem h v k x =
     (case v of
        HRef a \<Rightarrow> (case h a of None \<Rightarrow> h | Some d \<Rightarrow> h(a \<mapsto> AList.update k x d))
      | _ \<Rightarrow> h)"

text \<open>
  \<^verbatim>\<open>BaseAPI._from_model(cls, model)\<close>: the result is the address of \<open>doc\<close>. The dict is
  changed in place: \<^verbatim>\<open>doc.pop('_id')\<close>, then \<^verbatim>\<open>doc['id'] = str(...)\<close>.
\<close>

definition BaseAPI__from_model :: "externals \<Rightarrow> nat \<Rightarrow> heap \<Rightarrow> nat \<times> heap" where
  "BaseAPI__from_model ext model h =
     (let (son, h1) = to_mongo ext model h;
          (doc, h2) = unescape_chars ext son h1
      in case h2 doc of
           None \<Rightarrow> (doc, h2)
         | Some d \<Rightarrow>
             (case map_of d ''_id'' of
                None \<Rightarrow> (doc, h2)
              | Some v \<Rightarrow>
                  (doc, h2(doc \<mapsto> AList.update ''id'' (HStr (str ext v)) (AList.delete ''_id'' d)))))"

text \<open>
  \<^verbatim>\<open>cls(**attrs)\<close> on the store. The attribute dict of the new instance is its own
  (\<open>Own\<close>) until \<^verbatim>\<open>setattr\<close> is given a dict for \<^verbatim>\<open>__dict__\<close>: from then on the attribute
  dict of the instance is that dict of the store (\<open>Shared\<close>), and every later \<^verbatim>\<open>setattr\<close>
  writes to it. A reference is a dict; \<^verbatim>\<open>type(v).__name__\<close> of a string is that of the
  text type. \<^verbatim>\<open>setattr\<close> raises for the same keys as above.
\<close>

fun htype_name :: "hval \<Rightarrow> string" where
  "htype_name HNone = ''NoneType''"
| "htype_name (HBool b) = ''bool''"
| "htype_name (HInt i) = ''int''"
| "htype_name (HStr s) = ''unicode''"
| "htype_name (HDatetime t) = ''datetime.datetime''"
| "htype_name (HList xs) = ''list''"
| "htype_name (HRef a) = ''dict''"

datatype instance_dict = Own hdict | Shared nat

definition instance_vars :: "heap \<Rightarrow> instance_dict \<Rightarrow> hdict" where
  "instance_vars h self =
     (case self of
        Own d \<Rightarrow> d
      | Shared a \<Rightarrow> (case h a of None \<Rightarrow> [] | Some d \<Rightarrow> d))"

definition setattr_on_store ::
  "string \<Rightarrow> string \<times> hval \<Rightarrow> instance_dict \<Rightarrow> heap \<Rightarrow> exn + instance_dict \<times> heap" where
  "setattr_on_store cls item self h =
     (if fst item = ''__class__''
      then Inl (OtherException (''__class__ must be set to new-style class, not ''
                  @ quoted (htype_name (snd item)) @ '' object''))
      else if fst item = ''__dict__''
      then (case snd item of
              HRef a \<Rightarrow>
                (case h a of
                   None \<Rightarrow> Inl (OtherException ''dangling reference'')
                 | Some d \<Rightarrow> Inr (Shared a, h))
            | _ \<Rightarrow> Inl (OtherException (''__dict__ must be set to a dictionary, not a ''
                              @ quoted (htype_name (snd item)))))
      else if fst item = ''__weakref__''
      then Inl (OtherException (''attribute '' @ quoted ''__weakref__'' @ '' of ''
                  @ quoted cls @ '' objects is not writable''))
      else (case self of
              Own d \<Rightarrow> Inr (Own (AList.update (fst item) (snd item) d), h)
            | Shared a \<Rightarrow> Inr (Shared a, setitem h (HRef a) (fst item) (snd item))))"

fun setattrs_on_store ::
  "string \<Rightarrow> hdict \<Rightarrow> instance_dict \<Rightarrow> heap \<Rightarrow> (exn + instance_dict) \<times> heap" where
  "setattrs_on_store cls [] self h = (Inr self, h)"
| "setattrs_on_store cls (item # items) self h =
     (case setattr_on_store cls item self h of
        Inl e \<Rightarrow> (Inl e, h)
      | Inr (self', h') \<Rightarrow> setattrs_on_store cls items self' h')"

text \<open>
  The result of \<open>new_instance\<close> is the attribute dict of the instance when \<^verbatim>\<open>__init__\<close>
  returns, and the store.
\<close>

definition new_instance :: "externals \<Rightarrow> heap \<Rightarrow> hdict \<Rightarrow> (exn + hdict) \<times> heap" where
  "new_instance ext h attrs =
     (if ''self'' \<in> fst ` set attrs
      then (Inl (OtherException (''__init__() got multiple values for keyword argument ''
                   @ quoted ''self'')), h)
      else case validate ext h attrs of
             Some e \<Rightarrow> (Inl e, h)
           | None \<Rightarrow>
               (case setattrs_on_store (cls_name ext) attrs (Own []) h of
                  (Inl e, h') \<Rightarrow> (Inl e, h')
                | (Inr self, h') \<Rightarrow> (Inr (instance_vars h' self), h')))"

text \<open>\<^verbatim>\<open>BaseAPI.from_model(cls, model)\<close>: the attributes are the items that are not \<^verbatim>\<open>None\<close>.\<close>

definition BaseAPI_from_model :: "externals \<Rightarrow> nat \<Rightarrow> heap \<Rightarrow> (exn + hdict) \<times> heap" where
  "BaseAPI_from_model ext model h =
     (let (doc, h1) = BaseAPI__from_model ext model h
      in case h1 doc of
           None \<Rightarrow> (Inl (OtherException ''dangling reference''), h1)
         | Some d \<Rightarrow> new_instance ext h1 (filter (\<lambda>item. snd item \<noteq> HNone) d))"

text \<open>
  \<^verbatim>\<open>ActionExecutionAPI.from_model(cls, model)\<close>. The start timestamp is formatted first and
  stored last; the end timestamp is formatted and stored when it is not \<^verbatim>\<open>None\<close>
  (\<^verbatim>\<open>.get('end_timestamp', None)\<close>). The attributes are the items with a true value.
\<close>

definition format_timestamps :: "externals \<Rightarrow> hval \<Rightarrow> heap \<Rightarrow> (exn + unit) \<times> heap" where
  "format_timestamps ext liveaction h =
     (case subscript h liveaction ''start_timestamp'' of
        Inl e \<Rightarrow> (Inl e, h)
      | Inr ts \<Rightarrow>
          (case isotime_format ext ts of
             Inl e \<Rightarrow> (Inl e, h)
           | Inr start_timestamp \<Rightarrow>
               (let end_timestamp = (case subscript h liveaction ''end_timestamp'' of
                                       Inl e \<Rightarrow> HNone
                                     | Inr v \<Rightarrow> v)
                in if end_timestamp \<noteq> HNone
                   then (case isotime_format ext end_timestamp of
                           Inl e \<Rightarrow> (Inl e, h)
                         | Inr formatted \<Rightarrow>
                             (Inr (), setitem (setitem h liveaction ''end_timestamp'' formatted)
                                        liveaction ''start_timestamp'' start_timestamp))
                   else (Inr (), setitem h liveaction ''start_timestamp'' start_timestamp))))"

definition ActionExecutionAPI_from_model ::
  "externals \<Rightarrow> nat \<Rightarrow> heap \<Rightarrow> (exn + hdict) \<times> heap" where
  "ActionExecutionAPI_from_model ext model h =
     (let (doc, h1) = BaseAPI__from_model ext model h
      in case h1 doc of
           None \<Rightarrow> (Inl (OtherException ''dangling reference''), h1)
         | Some d \<Rightarrow>
             (case getitem d ''liveaction'' of
                Inl e \<Rightarrow> (Inl e, h1)
              | Inr liveaction \<Rightarrow>
                  (case format_timestamps ext liveaction h1 of
                     (Inl e, h2) \<Rightarrow> (Inl e, h2)
                   | (Inr u, h2) \<Rightarrow>
                       (case h2 doc of
                          None \<Rightarrow> (Inl (OtherException ''dangling reference''), h2)
                        | Some d2 \<Rightarrow>
                            new_instance ext h2 (filter (\<lambda>item. htruthy h2 (snd item)) d2)))))"

text \<open>
  \<^verbatim>\<open>ActionExecutionAPI.to_model(cls, instance)\<close>. The loop runs over the properties of the
  schema; each sets a different attribute, so the order of the dict iteration does not
  change the attributes of the model. Then both timestamps of \<^verbatim>\<open>model.liveaction\<close> are
  read with a subscript, parsed and stored.
\<close>

definition ActionExecutionAPI_properties :: "string list" where
  "ActionExecutionAPI_properties =
     [''id'', ''trigger'', ''trigger_type'', ''trigger_instance'', ''rule'', ''action'',
      ''runner'', ''liveaction'', ''parent'', ''children'']"

definition set_model_attr :: "externals \<Rightarrow> heap \<Rightarrow> hdict \<Rightarrow> string \<Rightarrow> hdict \<Rightarrow> hdict" where
  "set_model_attr ext h instance attr model =
     (let value = (case map_of instance attr of None \<Rightarrow> default_of ext attr | Some v \<Rightarrow> v)
      in if \<not> htruthy h value \<and> \<not> required ext attr then model
         else AList.update attr value model)"

definition parse_timestamp :: "externals \<Rightarrow> hval \<Rightarrow> string \<Rightarrow> heap \<Rightarrow> (exn + unit) \<times> heap" where
  "parse_timestamp ext liveaction key h =
     (case subscript h liveaction key of
        Inl e \<Rightarrow> (Inl e, h)
      | Inr ts \<Rightarrow>
          (case isotime_parse ext ts of
             Inl e \<Rightarrow> (Inl e, h)
           | Inr parsed \<Rightarrow> (Inr (), setitem h liveaction key parsed)))"

definition ActionExecutionAPI_to_model ::
  "externals \<Rightarrow> hdict \<Rightarrow> heap \<Rightarrow> (exn + hdict) \<times> heap" where
  "ActionExecutionAPI_to_model ext instance h =
     (let model = fold (set_model_attr ext h instance) ActionExecutionAPI_properties
                    (new_model ext)
      in case map_of model ''liveaction'' of
           None \<Rightarrow> (Inl (OtherException ''no attribute liveaction''), h)
         | Some liveaction \<Rightarrow>
             (case parse_timestamp ext liveaction ''start_timestamp'' h of
                (Inl e, h1) \<Rightarrow> (Inl e, h1)
              | (Inr u, h1) \<Rightarrow>
                  (case parse_timestamp ext liveaction ''end_timestamp'' h1 of
                     (Inl e, h2) \<Rightarrow> (Inl e, h2)
                   | (Inr u, h2) \<Rightarrow> (Inr model, h2))))"

section \<open>Concrete calls\<close>

text \<open>
  Inputs on which the theorems below are exercised: Python's \<^verbatim>\<open>bool\<close> as an argument
  type, a type that raises, a \<^verbatim>\<open>str\<close> that does not raise on exceptions, a symbolic JSON
  encoder, a request, a controller, a validator that requires the key \<open>name\<close>, and wrapped
  functions that echo their keyword arguments or raise.
\<close>

definition py_bool :: "pyval \<Rightarrow> exn + pyval" where
  "py_bool v = Inr (PyBool (truthy v))"

definition ex_str :: "exn \<Rightarrow> exn option" where
  "ex_str e = None"

definition ex_json_encode :: "pyval \<Rightarrow> pyval" where
  "ex_json_encode v = PyList [PyStr ''json'', v]"

definition ex_request :: request where
  "ex_request = \<lparr>req_params = [''x-auth-token''], req_method = PyStr ''GET'',
     req_path = PyStr ''/v1/actions'', req_remote_addr = PyStr ''127.0.0.1'',
     req_body = [], req_json = Inr PyNone\<rparr>"

definition ex_world :: world where
  "ex_world = \<lparr>resp_status = 200, resp_headers = [(''Content-Type'', ''application/json'')],
     LOG = [], invoked = []\<rparr>"

definition ex_controller :: pyval where
  "ex_controller = PyObject ''ActionsController'' []"

definition ex_validator :: "pyval \<Rightarrow> dict \<Rightarrow> exn option" where
  "ex_validator schema kw =
     (if map_of kw ''name'' = None then Some (ValidationError ''name is required'') else None)"

definition ex_echo :: wrapped where
  "ex_echo = \<lparr>f_name = ''get_one'', f_argspec = [''self'', ''a'', ''b''],
     f_call = (\<lambda>args kwargs resp. (Inr (PyDict kwargs), resp))\<rparr>"

definition ex_raising :: "exn \<Rightarrow> wrapped" where
  "ex_raising e = \<lparr>f_name = ''get_one'', f_argspec = [''self'', ''a'', ''b''],
     f_call = (\<lambda>args kwargs resp. (Inl e, resp))\<rparr>"

definition ex_cfg :: jsexpose_args where
  "ex_cfg = \<lparr>arg_types = None, body_cls = None, status_code = None,
     content_type = ''application/json''\<rparr>"

definition ex_body_request :: request where
  "ex_body_request = ex_request\<lparr>req_body := ''{\"enabled\": true}'',
     req_json := Inr (PyDict [(''enabled'', PyBool True)])\<rparr>"

definition ex_body_cfg :: jsexpose_args where
  "ex_body_cfg = ex_cfg\<lparr>body_cls := Some (BaseAPI_new ''ActionAPI'' ex_validator (PyDict []))\<rparr>"


definition ex_bad_json_request :: request where
  "ex_bad_json_request = ex_request\<lparr>req_body := ''{'',
     req_json := Inl (OtherException ''No JSON object could be decoded'')\<rparr>"

definition ex_self_request :: request where
  "ex_self_request = ex_request\<lparr>req_body := ''{\"self\": 1}'',
     req_json := Inr (PyDict [(''self'', PyInt 1)])\<rparr>"

definition ex_noop_cfg :: jsexpose_args where
  "ex_noop_cfg = ex_cfg\<lparr>status_code := Some FORBIDDEN\<rparr>"

definition ex_failing_type :: "pyval \<Rightarrow> exn + pyval" where
  "ex_failing_type v = Inl (OtherException ''invalid literal for int() with base 10'')"

text \<open>
  For the conversions: \<^verbatim>\<open>to_mongo\<close> and \<^verbatim>\<open>unescape_chars\<close> that copy a document and its
  \<open>liveaction\<close>, \<open>action\<close> and \<open>runner\<close> dicts to new addresses, a two-entry table for
  \<^verbatim>\<open>isotime\<close>, a validator that follows the \<^verbatim>\<open>required\<close> flags and
  \<^verbatim>\<open>additionalProperties: False\<close> of the schema of \<^verbatim>\<open>ActionExecutionAPI\<close>, and the stores of
  a finished and of a running execution: the document model at address 0, its
  \<open>liveaction\<close>, \<open>action\<close> and \<open>runner\<close> dicts at addresses 1, 2 and 3.
\<close>

definition ex_copy_nested :: "string \<Rightarrow> nat \<Rightarrow> hdict \<times> heap \<Rightarrow> hdict \<times> heap" where
  "ex_copy_nested key addr dh =
     (case map_of (fst dh) key of
        Some (HRef l) \<Rightarrow>
          (AList.update key (HRef addr) (fst dh),
           (snd dh)(addr \<mapsto> (case snd dh l of None \<Rightarrow> [] | Some ld \<Rightarrow> ld)))
      | _ \<Rightarrow> dh)"

definition ex_copy_doc :: "nat \<Rightarrow> nat \<Rightarrow> heap \<Rightarrow> nat \<times> heap" where
  "ex_copy_doc base src h =
     (case h src of
        None \<Rightarrow> (base, h(base \<mapsto> []))
      | Some d \<Rightarrow>
          (let dh = ex_copy_nested ''runner'' (base + 3)
                      (ex_copy_nested ''action'' (base + 2)
                         (ex_copy_nested ''liveaction'' (base + 1) (d, h)))
           in (base, (snd dh)(base \<mapsto> fst dh))))"

definition ex_isotime_format :: "hval \<Rightarrow> exn + hval" where
  "ex_isotime_format v =
     (if v = HDatetime 100 then Inr (HStr ''1970-01-01T00:01:40.000000Z'')
      else if v = HDatetime 200 then Inr (HStr ''1970-01-01T00:03:20.000000Z'')
      else Inl (OtherException ''not in the table''))"

definition ex_isotime_parse :: "hval \<Rightarrow> exn + hval" where
  "ex_isotime_parse v =
     (if v = HStr ''1970-01-01T00:01:40.000000Z'' then Inr (HDatetime 100)
      else if v = HStr ''1970-01-01T00:03:20.000000Z'' then Inr (HDatetime 200)
      else Inl (OtherException ''not in the table''))"

definition ex_validate :: "heap \<Rightarrow> hdict \<Rightarrow> exn option" where
  "ex_validate h kw =
     (if map_of kw ''id'' = None then Some (ValidationError ''id is a required property'')
      else if map_of kw ''action'' = None
      then Some (ValidationError ''action is a required property'')
      else if map_of kw ''runner'' = None
      then Some (ValidationError ''runner is a required property'')
      else if map_of kw ''liveaction'' = None
      then Some (ValidationError ''liveaction is a required property'')
      else if \<not> fst ` set kw \<subseteq> set ActionExecutionAPI_properties
      then Some (ValidationError ''Additional properties are not allowed'')
      else None)"

definition ex_externals :: externals where
  "ex_externals = \<lparr>to_mongo = ex_copy_doc 10, unescape_chars = ex_copy_doc 20,
     str = (\<lambda>v. case v of HStr s \<Rightarrow> s | _ \<Rightarrow> ''?''),
     isotime_format = ex_isotime_format, isotime_parse = ex_isotime_parse,
     validate = ex_validate,
     required = (\<lambda>attr. attr \<in> set [''action'', ''runner'', ''liveaction'']),
     default_of = (\<lambda>attr. HNone), new_model = [],
     cls_name = ''ActionExecutionAPI''\<rparr>"

definition ex_finished :: heap where
  "ex_finished = Map.empty
     (0 \<mapsto> [(''_id'', HStr ''54c6bb640640fd5211edef0d''), (''liveaction'', HRef 1),
           (''action'', HRef 2), (''runner'', HRef 3), (''parent'', HNone)],
      1 \<mapsto> [(''status'', HStr ''succeeded''), (''start_timestamp'', HDatetime 100),
           (''end_timestamp'', HDatetime 200)],
      2 \<mapsto> [(''name'', HStr ''local'')],
      3 \<mapsto> [(''name'', HStr ''run-local'')])"

definition ex_running :: heap where
  "ex_running = Map.empty
     (0 \<mapsto> [(''_id'', HStr ''54c6bb640640fd5211edef0d''), (''liveaction'', HRef 1),
           (''action'', HRef 2), (''runner'', HRef 3), (''parent'', HNone)],
      1 \<mapsto> [(''status'', HStr ''running''), (''start_timestamp'', HDatetime 100)],
      2 \<mapsto> [(''name'', HStr ''local'')],
      3 \<mapsto> [(''name'', HStr ''run-local'')])"



section \<open>Construction of API objects\<close>



lemma map_of_fold_update:
  "map_of (fold (\<lambda>item. AList.update (fst item) (snd item)) kw d) k =
     (case map_of (rev kw) k of None \<Rightarrow> map_of d k | Some v \<Rightarrow> Some v)"
proof (induction kw arbitrary: d)
  case Nil
  show ?case by simp
next
  case (Cons x kw)
  show ?case
    using Cons.IH [of "AList.update (fst x) (snd x) d"]
    by (cases x) (auto simp: update_conv' map_add_def split: option.splits)
qed

lemma fold_update_item:
  assumes "distinct (map fst kw)" and "(k, v) \<in> set kw"
  shows "map_of (fold (\<lambda>item. AList.update (fst item) (snd item)) kw d) k = Some v"
proof -
  have "distinct (map fst (rev kw))" using assms(1) by (simp add: rev_map [symmetric])
  moreover have "(k, v) \<in> set (rev kw)" using assms(2) by simp
  ultimately have "map_of (rev kw) k = Some v" by (rule map_of_is_SomeI)
  then show ?thesis by (simp add: map_of_fold_update)
qed


lemmas new_defs = BaseAPI_new_def instantiate_def BaseAPI_init_def setattr_def py_values_def
  py_type_name_def quoted_def




text \<open>
  Claim C10. Validation runs before any assignment: when it raises, \<^verbatim>\<open>__init__\<close> raises
  the same exception and the instance is what it was on entry.
\<close>

theorem BaseAPI_init_atomic:
  assumes "VALIDATOR schema kw = Some e"
  shows "BaseAPI_init V VALIDATOR schema kw self = (Inl e, self)"
  using assms by (simp add: BaseAPI_init_def)

theorem BaseAPI_init_atomic_witness:
  "BaseAPI_init py_values ex_validator (PyDict []) [(''enabled'', PyBool True)]
     \<lparr>inst_class = ''ActionAPI'', inst_vars = [(''id'', PyStr ''7'')]\<rparr>
   = (Inl (ValidationError ''name is required''),
      \<lparr>inst_class = ''ActionAPI'', inst_vars = [(''id'', PyStr ''7'')]\<rparr>)"
  using BaseAPI_init_atomic [where VALIDATOR = ex_validator
      and schema = "PyDict []" and kw = "[(''enabled'', PyBool True)]"
      and e = "ValidationError ''name is required''" and V = py_values
      and self = "\<lparr>inst_class = ''ActionAPI'', inst_vars = [(''id'', PyStr ''7'')]\<rparr>"]
  by (simp add: ex_validator_def)

section \<open>Frame and reachability lemmas for the wrapper\<close>

lemmas ex_defs = ex_str_def ex_json_encode_def ex_request_def ex_world_def ex_controller_def
  ex_validator_def ex_echo_def ex_raising_def ex_cfg_def py_bool_def

lemmas run_defs = callfunction_def callfunction_try_def coerce_phase_def coerce_positional_def
  coerce_kwarg_def body_phase_def request_data_def construct_body_def after_body_def
  call_wrapped_def handle_error_def controller_of_def log_request_def strip_token_def
  log_warning_missing_def request_info_def noop_codes_def new_defs
  BAD_REQUEST_def FORBIDDEN_def METHOD_NOT_ALLOWED_def INTERNAL_SERVER_ERROR_def
  NOT_IMPLEMENTED_def RESPONSE_LOGGING_METHOD_NAME_BLACKLIST_def
  RESPONSE_LOGGING_CONTROLLER_NAME_BLACKLIST_def is_noop_def





lemma handle_error_default:
  "handle_error json_encode e code PyNone None s =
     (Inr (json_encode (PyDict [(''faultstring'', PyStr (message e))])), s\<lparr>resp_status := code\<rparr>)"
  by (simp add: handle_error_def)

lemma handle_error_invoked:
  "handle_error json_encode e code body hdrs s = (r, s') \<Longrightarrow> invoked s' = invoked s"
  by (auto simp: handle_error_def Let_def split: option.splits pyval.splits if_splits)

lemma handle_error_status:
  "handle_error json_encode e code body hdrs s = (r, s') \<Longrightarrow> resp_status s' = code"
  by (auto simp: handle_error_def Let_def split: option.splits pyval.splits if_splits)

lemma coerce_kwarg_frame:
  assumes "coerce_kwarg fname name types kwargs s = (r, s')"
  shows "invoked s' = invoked s \<and> resp_status s' = resp_status s \<and> resp_headers s' = resp_headers s"
  using assms
  by (auto simp: coerce_kwarg_def log_warning_missing_def
           split: list.splits option.splits sum.splits if_splits)

lemma update_present_keys:
  assumes "map_of al k = Some x"
  shows "fst ` set (AList.update k v al) = fst ` set al"
proof -
  have "(k, x) \<in> set al" using assms by (rule map_of_SomeD)
  then have "k \<in> fst ` set al" by force
  then show ?thesis by (simp add: dom_update insert_absorb)
qed

lemma coerce_kwarg_keys:
  assumes "coerce_kwarg fname name types kwargs s = (Inr (types', kwargs'), s')"
  shows "fst ` set kwargs' = fst ` set kwargs"
proof (cases types)
  case Nil
  with assms show ?thesis by (simp add: coerce_kwarg_def)
next
  case (Cons t ts)
  show ?thesis
  proof (cases "map_of kwargs name")
    case None
    with assms Cons show ?thesis by (simp add: coerce_kwarg_def)
  next
    case (Some x)
    show ?thesis
    proof (cases "t x")
      case (Inl e)
      with assms Cons Some show ?thesis
        by (simp add: coerce_kwarg_def split: if_splits)
    next
      case (Inr v)
      with assms Cons Some have "kwargs' = AList.update name v kwargs"
        by (simp add: coerce_kwarg_def)
      with update_present_keys [OF Some] show ?thesis by simp
    qed
  qed
qed

lemma coerce_args_frame:
  assumes "coerce_args fname names args types more' kwargs s = (r, s')"
  shows "invoked s' = invoked s \<and> resp_status s' = resp_status s \<and> resp_headers s' = resp_headers s"
  using assms
proof (induction names arbitrary: args types more' kwargs s)
  case Nil
  then show ?case by auto
next
  case (Cons name names)
  show ?case
  proof (cases "coerce_positional args types")
    case (Converted v args' types')
    with Cons show ?thesis by simp
  next
    case (Raised e)
    with Cons.prems show ?thesis by auto
  next
    case (CaughtIndexError args' types')
    obtain r1 s1 where k: "coerce_kwarg fname name types' kwargs s = (r1, s1)"
      by (cases "coerce_kwarg fname name types' kwargs s")
    note fr = coerce_kwarg_frame [OF k]
    show ?thesis
    proof (cases r1)
      case (Inl e)
      with Cons.prems CaughtIndexError k fr show ?thesis by auto
    next
      case (Inr p)
      obtain types'' kwargs' where p: "p = (types'', kwargs')" by (cases p)
      from Cons.prems CaughtIndexError k Inr p
      have "coerce_args fname names args' types'' more' kwargs' s1 = (r, s')" by simp
      from Cons.IH [OF this] fr show ?thesis by simp
    qed
  qed
qed

lemma coerce_args_keys:
  assumes "coerce_args fname names args types more' kwargs s = (Inr (args1, more1, kwargs1), s')"
  shows "fst ` set kwargs1 = fst ` set kwargs"
  using assms
proof (induction names arbitrary: args types more' kwargs s)
  case Nil
  then show ?case by auto
next
  case (Cons name names)
  show ?case
  proof (cases "coerce_positional args types")
    case (Converted v args' types')
    with Cons show ?thesis by simp
  next
    case (Raised e)
    with Cons.prems show ?thesis by auto
  next
    case (CaughtIndexError args' types')
    obtain r1 s1 where k: "coerce_kwarg fname name types' kwargs s = (r1, s1)"
      by (cases "coerce_kwarg fname name types' kwargs s")
    show ?thesis
    proof (cases r1)
      case (Inl e)
      with Cons.prems CaughtIndexError k show ?thesis by auto
    next
      case (Inr p)
      obtain types'' kwargs' where p: "p = (types'', kwargs')" by (cases p)
      from Cons.prems CaughtIndexError k Inr p
      have "coerce_args fname names args' types'' more' kwargs' s1 = (Inr (args1, more1, kwargs1), s')"
        by simp
      from Cons.IH [OF this] coerce_kwarg_keys [OF k [unfolded Inr p]] show ?thesis by simp
    qed
  qed
qed

lemma coerce_phase_frame:
  assumes "coerce_phase cfg f args kwargs s = (r, s')"
  shows "invoked s' = invoked s \<and> resp_status s' = resp_status s \<and> resp_headers s' = resp_headers s"
  using assms
  by (auto simp: coerce_phase_def split: list.splits option.splits if_splits
           dest: coerce_args_frame)

lemma coerce_phase_keys:
  assumes "coerce_phase cfg f args kwargs s = (Inr (args1, more1, kwargs1), s')"
  shows "fst ` set kwargs1 = fst ` set kwargs"
proof (cases args)
  case Nil
  with assms show ?thesis by (simp add: coerce_phase_def)
next
  case (Cons controller args')
  show ?thesis
  proof (cases "arg_types cfg")
    case None
    with assms Cons show ?thesis by (simp add: coerce_phase_def)
  next
    case (Some types)
    show ?thesis
    proof (cases "types = []")
      case True
      with assms Cons Some show ?thesis by (simp add: coerce_phase_def)
    next
      case False
      with assms Cons Some
      have "coerce_args (f_name f) (tl (f_argspec f)) args' types [controller] kwargs s
              = (Inr (args1, more1, kwargs1), s')"
        by (simp add: coerce_phase_def)
      then show ?thesis by (rule coerce_args_keys)
    qed
  qed
qed

lemma call_wrapped_invoked:
  assumes "call_wrapped exc_str json_encode cfg f req controller args kwargs s = (r, s')"
  shows "invoked s' = invoked s @ [(args, kwargs)]"
proof -
  obtain r0 st hd where fc:
    "f_call f args kwargs (resp_status s, resp_headers s) = (r0, st, hd)"
    by (cases "f_call f args kwargs (resp_status s, resp_headers s)") auto
  show ?thesis
  proof (cases r0)
    case (Inr result)
    with assms fc show ?thesis
      by (auto simp: call_wrapped_def Let_def split: option.splits if_splits)
  next
    case (Inl e)
    with assms fc show ?thesis
      by (cases e) (auto simp: call_wrapped_def Let_def dest!: handle_error_invoked split: option.splits)
  qed
qed

lemma after_body_invoked:
  assumes "after_body exc_str json_encode cfg f req controller more' args kwargs s = (r, s')"
  shows "invoked s' = invoked s \<or> invoked s' = invoked s @ [(more' @ args, kwargs)]"
  using assms
  by (auto simp: after_body_def split: option.splits if_splits dest: call_wrapped_invoked)

lemma callfunction_try_invoked:
  assumes "callfunction_try exc_str json_encode cfg f req controller args kwargs s = (r, s')"
  shows "invoked s' = invoked s
         \<or> (\<exists>a kw. invoked s' = invoked s @ [(a, kw)] \<and> fst ` set kw = fst ` set kwargs)"
proof -
  obtain r1 s1 where c: "coerce_phase cfg f args kwargs s = (r1, s1)"
    by (cases "coerce_phase cfg f args kwargs s")
  have i1: "invoked s1 = invoked s" using coerce_phase_frame [OF c] by simp
  show ?thesis
  proof (cases r1)
    case (Inl e)
    with assms c i1 show ?thesis by (simp add: callfunction_try_def)
  next
    case (Inr p)
    obtain args1 more1 kwargs1 where p: "p = (args1, more1, kwargs1)" by (cases p)
    have keys: "fst ` set kwargs1 = fst ` set kwargs"
      using coerce_phase_keys c Inr p by blast
    show ?thesis
    proof (cases "body_phase cfg req")
      case (Inl e)
      with assms c Inr p i1 show ?thesis by (simp add: callfunction_try_def)
    next
      case b: (Inr q)
      show ?thesis
      proof (cases q)
        case (Inl e)
        with assms c Inr p b have "handle_error json_encode e BAD_REQUEST PyNone None s1 = (r, s')"
          by (simp add: callfunction_try_def)
        from handle_error_invoked [OF this] i1 show ?thesis by simp
      next
        case (Inr objs)
        with assms c \<open>r1 = Inr p\<close> p b
        have "after_body exc_str json_encode cfg f req controller (more1 @ objs) args1 kwargs1 s1 = (r, s')"
          by (simp add: callfunction_try_def)
        from after_body_invoked [OF this] i1 keys show ?thesis by auto
      qed
    qed
  qed
qed

lemma callfunction_invoked:
  assumes "callfunction exc_str json_encode token cfg f req args kwargs s = (out, s')"
  shows "invoked s' = invoked s
         \<or> (\<exists>a kw. invoked s' = invoked s @ [(a, kw)]
                    \<and> fst ` set kw = fst ` set (strip_token token req kwargs))"
proof -
  obtain r1 s1 where t: "callfunction_try exc_str json_encode cfg f req (controller_of args) args
             (strip_token token req kwargs) (log_request req kwargs s) = (r1, s1)"
    by (cases "callfunction_try exc_str json_encode cfg f req (controller_of args) args
             (strip_token token req kwargs) (log_request req kwargs s)")
  have "invoked s' = invoked s1"
    using assms t
    by (auto simp: callfunction_def handle_error_default split: sum.splits if_splits option.splits)
  moreover have "invoked (log_request req kwargs s) = invoked s"
    by (simp add: log_request_def)
  ultimately show ?thesis using callfunction_try_invoked [OF t] by simp
qed


lemma after_body_not_noop:
  "\<not> is_noop cfg \<Longrightarrow>
   after_body exc_str json_encode cfg f req controller more' args kwargs s =
     call_wrapped exc_str json_encode cfg f req controller (more' @ args) kwargs s"
  by (auto simp: after_body_def is_noop_def split: option.splits)

lemma after_body_noop:
  assumes "status_code cfg = Some c" and "c \<in> set noop_codes"
  shows "after_body exc_str json_encode cfg f req controller more' args kwargs s =
           (Inr (json_encode PyNone), s\<lparr>resp_status := c\<rparr>)"
proof -
  have "c \<noteq> 0" using assms(2)
    by (auto simp: noop_codes_def NOT_IMPLEMENTED_def METHOD_NOT_ALLOWED_def FORBIDDEN_def)
  with assms show ?thesis by (simp add: after_body_def)
qed

lemma callfunction_try_reaches_call:
  assumes "coerce_phase cfg f args kwargs s = (Inr (rest, more', kw), t)"
      and "body_phase cfg req = Inr (Inr objs)"
      and "\<not> is_noop cfg"
  shows "callfunction_try exc_str json_encode cfg f req controller args kwargs s =
           call_wrapped exc_str json_encode cfg f req controller (more' @ objs @ rest) kw t"
  using assms by (simp add: callfunction_try_def after_body_not_noop)

lemma body_phase_ValidationError:
  assumes "body_cls cfg = Some cls" and "request_data req = Inr data"
      and "construct_body cls data = Inl e" and "is_ValidationError e"
  shows "body_phase cfg req = Inr (Inl e)"
  using assms by (simp add: body_phase_def)


lemma noop_codes_nonzero: "c \<in> set noop_codes \<Longrightarrow> c \<noteq> 0"
  by (auto simp: noop_codes_def NOT_IMPLEMENTED_def METHOD_NOT_ALLOWED_def FORBIDDEN_def)

lemma callfunction_try_noop_invoked:
  assumes "status_code cfg = Some c" and "c \<in> set noop_codes"
      and "callfunction_try exc_str json_encode cfg f req controller args kwargs s = (r, s')"
  shows "invoked s' = invoked s"
proof -
  obtain r1 t where c: "coerce_phase cfg f args kwargs s = (r1, t)"
    by (cases "coerce_phase cfg f args kwargs s")
  have i1: "invoked t = invoked s" using coerce_phase_frame [OF c] by simp
  show ?thesis
  proof (cases r1)
    case (Inl e)
    with assms(3) c i1 show ?thesis by (simp add: callfunction_try_def)
  next
    case (Inr p)
    obtain rest more' kw where p: "p = (rest, more', kw)" by (cases p)
    show ?thesis
    proof (cases "body_phase cfg req")
      case (Inl e)
      with assms(3) c Inr p i1 show ?thesis by (simp add: callfunction_try_def)
    next
      case b: (Inr q)
      show ?thesis
      proof (cases q)
        case (Inl e)
        with assms(3) c Inr p b have "handle_error json_encode e BAD_REQUEST PyNone None t = (r, s')"
          by (simp add: callfunction_try_def)
        from handle_error_invoked [OF this] i1 show ?thesis by simp
      next
        case (Inr objs)
        with assms(3) c \<open>r1 = Inr p\<close> p b
        have "after_body exc_str json_encode cfg f req controller (more' @ objs) rest kw t = (r, s')"
          by (simp add: callfunction_try_def)
        with after_body_noop [OF assms(1,2)] i1 show ?thesis by auto
      qed
    qed
  qed
qed

lemma callfunction_outer_invoked:
  assumes "callfunction_try exc_str json_encode cfg f req (controller_of args) args
             (strip_token token req kwargs) (log_request req kwargs s) = (r, t)"
  shows "invoked (snd (callfunction exc_str json_encode token cfg f req args kwargs s)) = invoked t"
  using assms
  by (auto simp: callfunction_def handle_error_default split: sum.splits option.splits)


lemma call_wrapped_other_exception:
  assumes "f_call f args kwargs (resp_status s, resp_headers s) = (Inl e, st, hs)"
      and "\<not> is_HTTPException e"
  shows "call_wrapped exc_str json_encode cfg f req controller args kwargs s =
           (Inl e, s\<lparr>invoked := invoked s @ [(args, kwargs)], resp_status := st,
                      resp_headers := hs\<rparr>)"
  using assms by (cases e) (simp_all add: call_wrapped_def Let_def)

lemma callfunction_handles_uncaught:
  assumes "callfunction_try exc_str json_encode cfg f req (controller_of args) args
             (strip_token token req kwargs) (log_request req kwargs s) = (Inl e, t)"
      and "is_Exception e" and "exc_str e = None"
  shows "callfunction exc_str json_encode token cfg f req args kwargs s =
           (Returned (json_encode (PyDict [(''faultstring'', PyStr (message e))])),
            t\<lparr>LOG := LOG t @ [LogException e], resp_status := INTERNAL_SERVER_ERROR\<rparr>)"
  using assms by (simp add: callfunction_def handle_error_default)

text \<open>
  A webob exception with an empty body, raised by the wrapped function, passes through:
  the status is the exception's, the headers are the exception's when there are any, and
  the body has the exception's message as \<open>faultstring\<close>.
\<close>

lemma http_exception_with_empty_body:
  assumes "coerce_phase cfg f args (strip_token token req kwargs) (log_request req kwargs s)
             = (Inr (rest, more', kw), t)"
      and "body_phase cfg req = Inr (Inr objs)"
      and "\<not> is_noop cfg"
      and "f_call f (more' @ objs @ rest) kw (resp_status t, resp_headers t) = (Inl e, st, hs)"
      and "e = HTTPException m c b h \<or> e = HTTPUnauthorized m c b h"
      and "\<not> truthy b" and "exc_str e = None"
  shows "\<exists>s'. callfunction exc_str json_encode token cfg f req args kwargs s =
           (Returned (json_encode (PyDict [(''faultstring'', PyStr m)])), s')
         \<and> resp_status s' = c \<and> resp_headers s' = (if h \<noteq> [] then h else hs)"
proof -
  have reach: "callfunction_try exc_str json_encode cfg f req (controller_of args) args
          (strip_token token req kwargs) (log_request req kwargs s)
        = call_wrapped exc_str json_encode cfg f req (controller_of args)
            (more' @ objs @ rest) kw t"
    using assms(1,2,3) by (rule callfunction_try_reaches_call)
  from assms(5) show ?thesis
  proof
    assume "e = HTTPException m c b h"
    with assms(4,6,7) reach show ?thesis
      by (simp add: callfunction_def call_wrapped_def handle_error_def Let_def)
  next
    assume "e = HTTPUnauthorized m c b h"
    with assms(4,6,7) reach show ?thesis
      by (simp add: callfunction_def call_wrapped_def handle_error_def Let_def)
  qed
qed

text \<open>In the keyword path of the loop a missing type leaves the keyword arguments as they are.\<close>

lemma coerce_kwarg_missing_type:
  "coerce_kwarg fname name [] kwargs s = (Inr ([], kwargs), log_warning_missing name fname s)"
  by (simp add: coerce_kwarg_def)


text \<open>
  A type that raises in the positional path: when the types of the first \<open>n\<close> positional
  arguments return and the type of the next one raises an exception that is not an
  IndexError, the loop raises that exception.
\<close>

lemma coerce_args_positional_raises:
  assumes "n < length names" and "n < length pos" and "n < length tys"
      and "\<forall>i<n. \<exists>v. (tys ! i) (pos ! i) = Inr v"
      and "(tys ! n) (pos ! n) = Inl e" and "\<not> is_IndexError e"
  shows "coerce_args fname names pos tys more' kwargs s = (Inl e, s)"
  using assms
proof (induction n arbitrary: names pos tys more')
  case 0
  then obtain name ns a ps t ts where "names = name # ns" "pos = a # ps" "tys = t # ts"
    by (cases names; cases pos; cases tys) auto
  with "0.prems" show ?case by (simp add: coerce_positional_def)
next
  case (Suc k)
  then obtain name ns a ps t ts where sh: "names = name # ns" "pos = a # ps" "tys = t # ts"
    by (cases names; cases pos; cases tys) auto
  from Suc.prems(4) have "\<exists>v. (tys ! 0) (pos ! 0) = Inr v" by blast
  with sh obtain v where v: "t a = Inr v" by auto
  have "coerce_args fname ns ps ts (more' @ [v]) kwargs s = (Inl e, s)"
  proof (rule Suc.IH)
    show "k < length ns" "k < length ps" "k < length ts" using Suc.prems(1,2,3) sh by auto
    show "\<forall>i<k. \<exists>v. (ts ! i) (ps ! i) = Inr v"
    proof (intro allI impI)
      fix i assume "i < k"
      then have "Suc i < Suc k" by simp
      with Suc.prems(4) have "\<exists>v. (tys ! Suc i) (pos ! Suc i) = Inr v" by blast
      with sh show "\<exists>v. (ts ! i) (ps ! i) = Inr v" by simp
    qed
    show "(ts ! k) (ps ! k) = Inl e" using Suc.prems(5) sh by simp
    show "\<not> is_IndexError e" by (rule Suc.prems(6))
  qed
  with sh v show ?case by (simp add: coerce_positional_def)
qed

lemma coerce_phase_positional_raises:
  assumes "args = controller # pos" and "arg_types cfg = Some tys"
      and "n < length (tl (f_argspec f))" and "n < length pos" and "n < length tys"
      and "\<forall>i<n. \<exists>v. (tys ! i) (pos ! i) = Inr v"
      and "(tys ! n) (pos ! n) = Inl e" and "\<not> is_IndexError e"
  shows "coerce_phase cfg f args kwargs s = (Inl e, s)"
proof -
  from assms(5) have "tys \<noteq> []" by auto
  with assms(1,2) coerce_args_positional_raises [OF assms(3,4,5,6,7,8)]
  show ?thesis by (simp add: coerce_phase_def)
qed

section \<open>Request handling\<close>

text \<open>
  Claim C2. When \<^verbatim>\<open>body_cls\<close> is given and constructing it from the request body raises
  a JSON Schema ValidationError (the argument coercion before it having completed), the
  wrapper returns the JSON encoding of a body with the key \<open>faultstring\<close>, the response
  status is 400, and the wrapped function has not been invoked.
\<close>

theorem body_validation_error_gives_400:
  assumes "body_cls cfg = Some cls"
      and "coerce_phase cfg f args (strip_token token req kwargs) (log_request req kwargs s)
             = (Inr (rest, more', kw), t)"
      and "request_data req = Inr data"
      and "construct_body cls data = Inl e"
      and "is_ValidationError e"
  shows "callfunction exc_str json_encode token cfg f req args kwargs s =
           (Returned (json_encode (PyDict [(''faultstring'', PyStr (message e))])),
            t\<lparr>resp_status := BAD_REQUEST\<rparr>)
         \<and> invoked (t\<lparr>resp_status := BAD_REQUEST\<rparr>) = invoked s"
proof -
  have b: "body_phase cfg req = Inr (Inl e)"
    using assms(1,3,4,5) by (rule body_phase_ValidationError)
  have "callfunction_try exc_str json_encode cfg f req (controller_of args) args
          (strip_token token req kwargs) (log_request req kwargs s)
        = (Inr (json_encode (PyDict [(''faultstring'', PyStr (message e))])),
           t\<lparr>resp_status := BAD_REQUEST\<rparr>)"
    using assms(2) b by (simp add: callfunction_try_def handle_error_default)
  then have r: "callfunction exc_str json_encode token cfg f req args kwargs s =
           (Returned (json_encode (PyDict [(''faultstring'', PyStr (message e))])),
            t\<lparr>resp_status := BAD_REQUEST\<rparr>)"
    by (simp add: callfunction_def)
  have "invoked t = invoked (log_request req kwargs s)"
    using coerce_phase_frame [OF assms(2)] by simp
  then have "invoked (t\<lparr>resp_status := BAD_REQUEST\<rparr>) = invoked s"
    by (simp add: log_request_def)
  with r show ?thesis by simp
qed

theorem body_validation_error_gives_400_witness:
  "callfunction ex_str ex_json_encode ''x-auth-token'' ex_body_cfg ex_echo ex_body_request
     [ex_controller] [] ex_world
   = (Returned (ex_json_encode (PyDict [(''faultstring'', PyStr ''name is required'')])),
      (log_request ex_body_request [] ex_world)\<lparr>resp_status := 400\<rparr>)
   \<and> invoked ((log_request ex_body_request [] ex_world)\<lparr>resp_status := 400\<rparr>) = []"
  using body_validation_error_gives_400 [where cfg = ex_body_cfg
      and cls = "BaseAPI_new ''ActionAPI'' ex_validator (PyDict [])"
      and f = ex_echo and args = "[ex_controller]" and kwargs = "[]" and token = "''x-auth-token''"
      and req = ex_body_request
      and s = ex_world and rest = "[]" and more' = "[ex_controller]" and kw = "[]"
      and t = "log_request ex_body_request [] ex_world"
      and data = "PyDict [(''enabled'', PyBool True)]"
      and e = "ValidationError ''name is required''" and json_encode = ex_json_encode and exc_str = ex_str]
  by (simp add: ex_body_cfg_def ex_body_request_def ex_cfg_def coerce_phase_def strip_token_def
        request_data_def ex_request_def ex_world_def
        construct_body_def new_defs ex_validator_def BAD_REQUEST_def)


text \<open>
  Claim C9. When the auth-token parameter name is both in the query parameters and in the
  keyword arguments, the entry is deleted from the keyword arguments before the coercion,
  and no invocation of the wrapped function made by the call has that key.
\<close>

theorem auth_token_never_passed:
  assumes "token \<in> set (req_params req)" and "token \<in> fst ` set kwargs"
      and "callfunction exc_str json_encode token cfg f req args kwargs s = (out, s')"
  shows "strip_token token req kwargs = AList.delete token kwargs
         \<and> (\<exists>new. invoked s' = invoked s @ new
                \<and> (\<forall>(a, kw) \<in> set new. token \<notin> fst ` set kw))"
proof -
  have st: "strip_token token req kwargs = AList.delete token kwargs"
    using assms(1,2) by (simp add: strip_token_def)
  have "token \<notin> fst ` set (AList.delete token kwargs)"
    by (rule delete_notin_dom)
  with callfunction_invoked [OF assms(3)] st show ?thesis by auto
qed

theorem auth_token_never_passed_witness:
  "''x-auth-token'' \<in> set (req_params ex_request)
   \<and> ''x-auth-token'' \<in> fst ` set [(''x-auth-token'', PyStr ''secret''), (''a'', PyInt 1)]
   \<and> invoked (snd (callfunction ex_str ex_json_encode ''x-auth-token''
          (ex_cfg\<lparr>arg_types := Some [py_bool]\<rparr>) ex_echo ex_request [ex_controller]
          [(''x-auth-token'', PyStr ''secret''), (''a'', PyInt 1)] ex_world))
       = [([ex_controller], [(''a'', PyBool True)])]"
  using auth_token_never_passed [where token = "''x-auth-token''" and req = ex_request
      and kwargs = "[(''x-auth-token'', PyStr ''secret''), (''a'', PyInt 1)]"
      and json_encode = ex_json_encode and exc_str = ex_str and cfg = "ex_cfg\<lparr>arg_types := Some [py_bool]\<rparr>"
      and f = ex_echo and args = "[ex_controller]" and s = ex_world
      and out = "fst (callfunction ex_str ex_json_encode ''x-auth-token''
          (ex_cfg\<lparr>arg_types := Some [py_bool]\<rparr>) ex_echo ex_request [ex_controller]
          [(''x-auth-token'', PyStr ''secret''), (''a'', PyInt 1)] ex_world)"
      and s' = "snd (callfunction ex_str ex_json_encode ''x-auth-token''
          (ex_cfg\<lparr>arg_types := Some [py_bool]\<rparr>) ex_echo ex_request [ex_controller]
          [(''x-auth-token'', PyStr ''secret''), (''a'', PyInt 1)] ex_world)"]
  by (simp add: run_defs ex_defs Let_def)

text \<open>
  Claim C8, as amended. With a status code of 501, 405 or 403 the wrapped function is
  never invoked; and when the argument coercion and the construction of the request body
  complete, the wrapper sets the response status to that code and returns the JSON encoding
  of \<^verbatim>\<open>None\<close>. (The check of the status code comes after those two steps.)
\<close>

theorem noop_status_code_skips_call:
  assumes "status_code cfg = Some c" and "c \<in> set noop_codes"
  shows "invoked (snd (callfunction exc_str json_encode token cfg f req args kwargs s)) = invoked s
         \<and> (coerce_phase cfg f args (strip_token token req kwargs) (log_request req kwargs s)
               = (Inr (rest, more', kw), t)
             \<longrightarrow> body_phase cfg req = Inr (Inr objs)
             \<longrightarrow> callfunction exc_str json_encode token cfg f req args kwargs s
                   = (Returned (json_encode PyNone), t\<lparr>resp_status := c\<rparr>))"
proof -
  obtain r u where tr: "callfunction_try exc_str json_encode cfg f req (controller_of args) args
             (strip_token token req kwargs) (log_request req kwargs s) = (r, u)"
    by (cases "callfunction_try exc_str json_encode cfg f req (controller_of args) args
             (strip_token token req kwargs) (log_request req kwargs s)")
  have "invoked u = invoked (log_request req kwargs s)"
    using callfunction_try_noop_invoked [OF assms tr] .
  then have a: "invoked (snd (callfunction exc_str json_encode token cfg f req args kwargs s)) = invoked s"
    using callfunction_outer_invoked [OF tr] by (simp add: log_request_def)
  have b: "callfunction exc_str json_encode token cfg f req args kwargs s
             = (Returned (json_encode PyNone), t\<lparr>resp_status := c\<rparr>)"
    if "coerce_phase cfg f args (strip_token token req kwargs) (log_request req kwargs s)
               = (Inr (rest, more', kw), t)"
      and "body_phase cfg req = Inr (Inr objs)"
    using that after_body_noop [OF assms]
    by (simp add: callfunction_def callfunction_try_def)
  from a b show ?thesis by blast
qed

theorem noop_status_code_skips_call_witness:
  "status_code ex_noop_cfg = Some 403 \<and> 403 \<in> set noop_codes
   \<and> coerce_phase ex_noop_cfg ex_echo [ex_controller, PyInt 7]
        (strip_token ''x-auth-token'' ex_request [(''a'', PyInt 1)])
        (log_request ex_request [(''a'', PyInt 1)] ex_world)
       = (Inr ([PyInt 7], [ex_controller], [(''a'', PyInt 1)]),
          log_request ex_request [(''a'', PyInt 1)] ex_world)
   \<and> body_phase ex_noop_cfg ex_request = Inr (Inr [])
   \<and> callfunction ex_str ex_json_encode ''x-auth-token'' ex_noop_cfg ex_echo ex_request
        [ex_controller, PyInt 7] [(''a'', PyInt 1)] ex_world
       = (Returned (ex_json_encode PyNone),
          (log_request ex_request [(''a'', PyInt 1)] ex_world)\<lparr>resp_status := 403\<rparr>)
   \<and> invoked (snd (callfunction ex_str ex_json_encode ''x-auth-token'' ex_noop_cfg ex_echo ex_request
        [ex_controller, PyInt 7] [(''a'', PyInt 1)] ex_world)) = []"
  using noop_status_code_skips_call [where cfg = ex_noop_cfg and c = 403
      and json_encode = ex_json_encode and exc_str = ex_str and token = "''x-auth-token''" and f = ex_echo
      and req = ex_request and args = "[ex_controller, PyInt 7]" and kwargs = "[(''a'', PyInt 1)]"
      and s = ex_world and rest = "[PyInt 7]" and more' = "[ex_controller]"
      and kw = "[(''a'', PyInt 1)]" and t = "log_request ex_request [(''a'', PyInt 1)] ex_world"
      and objs = "[]"]
  by (simp add: ex_noop_cfg_def ex_cfg_def FORBIDDEN_def noop_codes_def NOT_IMPLEMENTED_def
        METHOD_NOT_ALLOWED_def coerce_phase_def strip_token_def body_phase_def ex_world_def
        log_request_def)

text \<open>
  The claim as stated fails: with status code 403 and a request body that the body class
  rejects, the response status is 400 and the returned body is the error body.
\<close>

theorem noop_status_code_counterexample:
  "status_code (ex_body_cfg\<lparr>status_code := Some FORBIDDEN\<rparr>) = Some FORBIDDEN
   \<and> FORBIDDEN \<in> set noop_codes
   \<and> fst (callfunction ex_str ex_json_encode ''x-auth-token''
            (ex_body_cfg\<lparr>status_code := Some FORBIDDEN\<rparr>) ex_echo ex_request
            [ex_controller] [] ex_world)
       \<noteq> Returned (ex_json_encode PyNone)
   \<and> resp_status (snd (callfunction ex_str ex_json_encode ''x-auth-token''
            (ex_body_cfg\<lparr>status_code := Some FORBIDDEN\<rparr>) ex_echo ex_request
            [ex_controller] [] ex_world))
       \<noteq> FORBIDDEN"
  by (simp add: run_defs ex_defs ex_body_cfg_def Let_def)

text \<open>
  Claim C1, as amended. Let an exception derived from \<^verbatim>\<open>Exception\<close> be raised by the
  argument coercion (a missing controller argument, the type of a positional argument, or
  any exception that leaves the coercion; not an IndexError or KeyError that the loop
  absorbs), by \<^verbatim>\<open>pecan.request.json\<close>, by the construction of the body class
  (not a ValidationError) or by the wrapped function (not an HTTP exception), and let
  \<^verbatim>\<open>str(e)\<close> not raise. Then the exception does not propagate: the wrapper returns the
  JSON encoding of a body whose \<open>faultstring\<close> is the exception's message, and the
  response status is 500.
\<close>

theorem uncaught_exception_gives_500:
  assumes "(args = [] \<and> e = IndexError ''pop from empty list'')
           \<or> (args = controller # pos \<and> arg_types cfg = Some tys
               \<and> n < length (tl (f_argspec f)) \<and> n < length pos \<and> n < length tys
               \<and> (\<forall>i<n. \<exists>v. (tys ! i) (pos ! i) = Inr v)
               \<and> (tys ! n) (pos ! n) = Inl e \<and> \<not> is_IndexError e)
           \<or> coerce_phase cfg f args (strip_token token req kwargs) (log_request req kwargs s)
               = (Inl e, t)
           \<or> (coerce_phase cfg f args (strip_token token req kwargs) (log_request req kwargs s)
                 = (Inr (rest, more', kw), t)
               \<and> body_cls cfg = Some cls \<and> request_data req = Inl e)
           \<or> (coerce_phase cfg f args (strip_token token req kwargs) (log_request req kwargs s)
                 = (Inr (rest, more', kw), t)
               \<and> body_cls cfg = Some cls \<and> request_data req = Inr data
               \<and> construct_body cls data = Inl e \<and> \<not> is_ValidationError e)
           \<or> (coerce_phase cfg f args (strip_token token req kwargs) (log_request req kwargs s)
                 = (Inr (rest, more', kw), t)
               \<and> body_phase cfg req = Inr (Inr objs) \<and> \<not> is_noop cfg
               \<and> f_call f (more' @ objs @ rest) kw (resp_status t, resp_headers t)
                   = (Inl e, st, hs)
               \<and> \<not> is_HTTPException e)"
      and "is_Exception e" and "exc_str e = None"
  shows "fst (callfunction exc_str json_encode token cfg f req args kwargs s)
           = Returned (json_encode (PyDict [(''faultstring'', PyStr (message e))]))
         \<and> resp_status (snd (callfunction exc_str json_encode token cfg f req args kwargs s))
           = INTERNAL_SERVER_ERROR"
proof -
  have "\<exists>u. callfunction_try exc_str json_encode cfg f req (controller_of args) args
             (strip_token token req kwargs) (log_request req kwargs s) = (Inl e, u)"
    using assms(1)
  proof (elim disjE conjE)
    assume "args = []" and "e = IndexError ''pop from empty list''"
    then show ?thesis by (simp add: callfunction_try_def coerce_phase_def)
  next
    assume "args = controller # pos" and "arg_types cfg = Some tys"
      and "n < length (tl (f_argspec f))" and "n < length pos" and "n < length tys"
      and "\<forall>i<n. \<exists>v. (tys ! i) (pos ! i) = Inr v"
      and "(tys ! n) (pos ! n) = Inl e" and "\<not> is_IndexError e"
    then have "coerce_phase cfg f args (strip_token token req kwargs)
                 (log_request req kwargs s) = (Inl e, log_request req kwargs s)"
      by (rule coerce_phase_positional_raises)
    then show ?thesis by (simp add: callfunction_try_def)
  next
    assume "coerce_phase cfg f args (strip_token token req kwargs) (log_request req kwargs s)
             = (Inl e, t)"
    then show ?thesis by (simp add: callfunction_try_def)
  next
    assume "coerce_phase cfg f args (strip_token token req kwargs) (log_request req kwargs s)
                 = (Inr (rest, more', kw), t)"
      and "body_cls cfg = Some cls" and "request_data req = Inl e"
    then show ?thesis by (simp add: callfunction_try_def body_phase_def)
  next
    assume "coerce_phase cfg f args (strip_token token req kwargs) (log_request req kwargs s)
                 = (Inr (rest, more', kw), t)"
      and "body_cls cfg = Some cls" and "request_data req = Inr data"
      and "construct_body cls data = Inl e" and "\<not> is_ValidationError e"
    then show ?thesis by (simp add: callfunction_try_def body_phase_def)
  next
    assume c: "coerce_phase cfg f args (strip_token token req kwargs) (log_request req kwargs s)
                 = (Inr (rest, more', kw), t)"
      and b: "body_phase cfg req = Inr (Inr objs)" and n: "\<not> is_noop cfg"
      and r: "f_call f (more' @ objs @ rest) kw (resp_status t, resp_headers t)
                   = (Inl e, st, hs)"
      and h: "\<not> is_HTTPException e"
    show ?thesis
      using callfunction_try_reaches_call [OF c b n, of exc_str json_encode "controller_of args"]
        call_wrapped_other_exception [OF r h, of exc_str json_encode cfg req "controller_of args"]
      by simp
  qed
  then obtain u where "callfunction_try exc_str json_encode cfg f req (controller_of args) args
             (strip_token token req kwargs) (log_request req kwargs s) = (Inl e, u)" ..
  from callfunction_handles_uncaught [OF this assms(2,3)] show ?thesis by simp
qed

theorem uncaught_exception_gives_500_witness:
  "fst (callfunction ex_str ex_json_encode ''x-auth-token'' ex_cfg ex_echo ex_request [] []
          ex_world)
     = Returned (ex_json_encode (PyDict [(''faultstring'', PyStr ''pop from empty list'')]))
   \<and> resp_status (snd (callfunction ex_str ex_json_encode ''x-auth-token'' ex_cfg ex_echo
          ex_request [] [] ex_world)) = 500
   \<and> fst (callfunction ex_str ex_json_encode ''x-auth-token''
          (ex_cfg\<lparr>arg_types := Some [py_bool, ex_failing_type]\<rparr>) ex_echo ex_request
          [ex_controller, PyStr ''x'', PyStr ''abc''] [] ex_world)
     = Returned (ex_json_encode (PyDict
         [(''faultstring'', PyStr ''invalid literal for int() with base 10'')]))
   \<and> resp_status (snd (callfunction ex_str ex_json_encode ''x-auth-token''
          (ex_cfg\<lparr>arg_types := Some [py_bool, ex_failing_type]\<rparr>) ex_echo ex_request
          [ex_controller, PyStr ''x'', PyStr ''abc''] [] ex_world)) = 500
   \<and> fst (callfunction ex_str ex_json_encode ''x-auth-token''
          (ex_cfg\<lparr>arg_types := Some [ex_failing_type]\<rparr>) ex_echo ex_request
          [ex_controller] [(''a'', PyStr ''abc'')] ex_world)
     = Returned (ex_json_encode (PyDict
         [(''faultstring'', PyStr ''invalid literal for int() with base 10'')]))
   \<and> resp_status (snd (callfunction ex_str ex_json_encode ''x-auth-token''
          (ex_cfg\<lparr>arg_types := Some [ex_failing_type]\<rparr>) ex_echo ex_request
          [ex_controller] [(''a'', PyStr ''abc'')] ex_world)) = 500
   \<and> fst (callfunction ex_str ex_json_encode ''x-auth-token'' ex_body_cfg ex_echo
          ex_bad_json_request [ex_controller] [] ex_world)
     = Returned (ex_json_encode (PyDict
         [(''faultstring'', PyStr ''No JSON object could be decoded'')]))
   \<and> resp_status (snd (callfunction ex_str ex_json_encode ''x-auth-token'' ex_body_cfg ex_echo
          ex_bad_json_request [ex_controller] [] ex_world)) = 500
   \<and> fst (callfunction ex_str ex_json_encode ''x-auth-token'' ex_body_cfg ex_echo
          ex_self_request [ex_controller] [] ex_world)
     = Returned (ex_json_encode (PyDict
         [(''faultstring'', PyStr (''__init__() got multiple values for keyword argument ''
                                    @ quoted ''self''))]))
   \<and> resp_status (snd (callfunction ex_str ex_json_encode ''x-auth-token'' ex_body_cfg ex_echo
          ex_self_request [ex_controller] [] ex_world)) = 500
   \<and> fst (callfunction ex_str ex_json_encode ''x-auth-token'' ex_cfg
          (ex_raising (OtherException ''boom'')) ex_request [ex_controller] [] ex_world)
     = Returned (ex_json_encode (PyDict [(''faultstring'', PyStr ''boom'')]))
   \<and> resp_status (snd (callfunction ex_str ex_json_encode ''x-auth-token'' ex_cfg
          (ex_raising (OtherException ''boom'')) ex_request [ex_controller] [] ex_world)) = 500"
  using
    uncaught_exception_gives_500 [where exc_str = ex_str and json_encode = ex_json_encode
      and token = "''x-auth-token''" and cfg = ex_cfg and f = ex_echo and req = ex_request
      and args = "[]" and kwargs = "[]" and s = ex_world
      and e = "IndexError ''pop from empty list''"]
    uncaught_exception_gives_500 [where exc_str = ex_str and json_encode = ex_json_encode
      and token = "''x-auth-token''"
      and cfg = "ex_cfg\<lparr>arg_types := Some [py_bool, ex_failing_type]\<rparr>"
      and f = ex_echo and req = ex_request
      and args = "[ex_controller, PyStr ''x'', PyStr ''abc'']"
      and controller = ex_controller and pos = "[PyStr ''x'', PyStr ''abc'']"
      and tys = "[py_bool, ex_failing_type]" and n = 1
      and kwargs = "[]" and s = ex_world
      and e = "OtherException ''invalid literal for int() with base 10''"]
    uncaught_exception_gives_500 [where exc_str = ex_str and json_encode = ex_json_encode
      and token = "''x-auth-token''" and cfg = "ex_cfg\<lparr>arg_types := Some [ex_failing_type]\<rparr>"
      and f = ex_echo and req = ex_request and args = "[ex_controller]"
      and kwargs = "[(''a'', PyStr ''abc'')]" and s = ex_world
      and e = "OtherException ''invalid literal for int() with base 10''"
      and t = "log_request ex_request [(''a'', PyStr ''abc'')] ex_world"]
    uncaught_exception_gives_500 [where exc_str = ex_str and json_encode = ex_json_encode
      and token = "''x-auth-token''" and cfg = ex_body_cfg and f = ex_echo
      and req = ex_bad_json_request
      and args = "[ex_controller]" and kwargs = "[]" and s = ex_world
      and e = "OtherException ''No JSON object could be decoded''"
      and rest = "[]" and more' = "[ex_controller]" and kw = "[]"
      and cls = "BaseAPI_new ''ActionAPI'' ex_validator (PyDict [])"
      and t = "log_request ex_bad_json_request [] ex_world"]
    uncaught_exception_gives_500 [where exc_str = ex_str and json_encode = ex_json_encode
      and token = "''x-auth-token''" and cfg = ex_body_cfg and f = ex_echo
      and req = ex_self_request
      and args = "[ex_controller]" and kwargs = "[]" and s = ex_world
      and e = "OtherException (''__init__() got multiple values for keyword argument ''
                                    @ quoted ''self'')"
      and rest = "[]" and more' = "[ex_controller]" and kw = "[]"
      and cls = "BaseAPI_new ''ActionAPI'' ex_validator (PyDict [])"
      and data = "PyDict [(''self'', PyInt 1)]"
      and t = "log_request ex_self_request [] ex_world"]
    uncaught_exception_gives_500 [where exc_str = ex_str and json_encode = ex_json_encode
      and token = "''x-auth-token''" and cfg = ex_cfg
      and f = "ex_raising (OtherException ''boom'')" and req = ex_request
      and args = "[ex_controller]" and kwargs = "[]" and s = ex_world
      and e = "OtherException ''boom''"
      and rest = "[]" and more' = "[ex_controller]" and kw = "[]" and objs = "[]"
      and st = 200 and hs = "[(''Content-Type'', ''application/json'')]"
      and t = "log_request ex_request [] ex_world"]
  by (simp add: run_defs ex_defs ex_body_cfg_def ex_failing_type_def ex_bad_json_request_def
        ex_self_request_def Let_def)

text \<open>
  The claim as stated fails: a ValidationError raised by constructing the body class is not
  an HTTP exception, and the response status is 400.
\<close>

theorem uncaught_exception_counterexample:
  "construct_body (BaseAPI_new ''ActionAPI'' ex_validator (PyDict [])) (PyDict [])
     = Inl (ValidationError ''name is required'')
   \<and> \<not> is_HTTPException (ValidationError ''name is required'')
   \<and> resp_status (snd (callfunction ex_str ex_json_encode ''x-auth-token'' ex_body_cfg ex_echo
         ex_request [ex_controller] [] ex_world)) = BAD_REQUEST
   \<and> BAD_REQUEST \<noteq> INTERNAL_SERVER_ERROR"
  by (simp add: run_defs ex_defs ex_body_cfg_def Let_def)


text \<open>
  Claim C4 at a webob exception with status 404 and the non-empty body \<^verbatim>\<open>'Not Found'\<close>,
  raised by the wrapped function: the handler passes the body, a string, to
  \<^verbatim>\<open>_handle_error\<close>, whose assertion that the error body is a dict fails after the status
  and the headers are set; the \<^verbatim>\<open>AssertionError\<close> goes on to \<^verbatim>\<open>except Exception\<close>, and
  the response has status 500, the exception's headers and an empty \<open>faultstring\<close>.
\<close>

theorem http_exception_body_fails_assertion:
  "f_call (ex_raising (HTTPException ''not found'' 404 (PyStr ''Not Found'')
              [(''Content-Type'', ''text/plain'')])) [ex_controller] [] (200, [])
     = (Inl (HTTPException ''not found'' 404 (PyStr ''Not Found'')
              [(''Content-Type'', ''text/plain'')]), (200, []))
   \<and> callfunction ex_str ex_json_encode ''x-auth-token'' ex_cfg
        (ex_raising (HTTPException ''not found'' 404 (PyStr ''Not Found'')
              [(''Content-Type'', ''text/plain'')])) ex_request [ex_controller] [] ex_world
     = (Returned (ex_json_encode (PyDict [(''faultstring'', PyStr [])])),
        (log_request ex_request [] ex_world)
          \<lparr>resp_status := 500, resp_headers := [(''Content-Type'', ''text/plain'')],
           LOG := LOG (log_request ex_request [] ex_world)
                  @ [LogException (HTTPException ''not found'' 404 (PyStr ''Not Found'')
                                     [(''Content-Type'', ''text/plain'')]),
                     LogException (AssertionError [])],
           invoked := [([ex_controller], [])]\<rparr>)"
  by (simp add: run_defs ex_defs Let_def)

text \<open>
  Claim C7 at \<^verbatim>\<open>arg_types=[bool]\<close>, a function \<^verbatim>\<open>get_one(self, a, b)\<close> and the positional
  arguments \<^verbatim>\<open>(controller, '1', '2')\<close>: the type of \<open>b\<close> is missing, the warning is logged,
  and the argument \<^verbatim>\<open>'2'\<close> has been popped from \<^verbatim>\<open>args\<close> and is in neither \<^verbatim>\<open>more\<close> nor
  \<^verbatim>\<open>args\<close>: the wrapped function is called with \<^verbatim>\<open>(controller, True)\<close>.
\<close>

theorem missing_type_drops_positional_argument:
  "coerce_phase (ex_cfg\<lparr>arg_types := Some [py_bool]\<rparr>) ex_echo
     [ex_controller, PyStr ''1'', PyStr ''2''] [] ex_world
   = (Inr ([], [ex_controller, PyBool True], []),
      ex_world\<lparr>LOG := [LogWarning ''b'' ''get_one'']\<rparr>)
   \<and> invoked (snd (callfunction ex_str ex_json_encode ''x-auth-token''
         (ex_cfg\<lparr>arg_types := Some [py_bool]\<rparr>) ex_echo ex_request
         [ex_controller, PyStr ''1'', PyStr ''2''] [] ex_world))
     = [([ex_controller, PyBool True], [])]"
  by (simp add: run_defs ex_defs Let_def)

section \<open>Document models\<close>

lemmas conv_defs = BaseAPI__from_model_def BaseAPI_from_model_def new_instance_def
  ActionExecutionAPI_from_model_def format_timestamps_def ActionExecutionAPI_to_model_def
  parse_timestamp_def set_model_attr_def ActionExecutionAPI_properties_def getitem_def
  subscript_def setitem_def setattr_on_store_def instance_vars_def
  quoted_def ex_copy_doc_def ex_copy_nested_def ex_validate_def
  ex_isotime_format_def ex_isotime_parse_def ex_externals_def ex_finished_def ex_running_def





lemma setattrs_on_store_plain:
  "fst ` set kw \<inter> reserved_names = {} \<Longrightarrow>
   setattrs_on_store cls kw (Own d) h =
     (Inr (Own (fold (\<lambda>item. AList.update (fst item) (snd item)) kw d)), h)"
proof (induction kw arbitrary: d)
  case Nil
  show ?case by simp
next
  case (Cons item kw)
  from Cons.prems have "fst item \<notin> reserved_names" and "fst ` set kw \<inter> reserved_names = {}"
    by auto
  with Cons.IH show ?case by (simp add: setattr_on_store_def reserved_names_def)
qed

lemma new_instance_plain:
  assumes "''self'' \<notin> fst ` set attrs" and "validate ext h attrs = None"
      and "fst ` set attrs \<inter> reserved_names = {}"
  shows "new_instance ext h attrs =
           (Inr (fold (\<lambda>item. AList.update (fst item) (snd item)) attrs []), h)"
  using assms by (simp add: new_instance_def setattrs_on_store_plain instance_vars_def)













lemma map_of_filter_keep:
  "map_of xs k = Some v \<Longrightarrow> P (k, v) \<Longrightarrow> map_of (filter P xs) k = Some v"
  by (induction xs) (auto split: if_splits)

lemma from_model_doc_liveaction_kept:
  assumes "unescape_chars ext (fst (to_mongo ext model h)) (snd (to_mongo ext model h)) = (doc, h0)"
      and "h0 doc = Some d" and "map_of d ''liveaction'' = Some (HRef a)" and "a \<noteq> doc"
      and "h0 a = Some l" and "distinct (map fst d)"
  shows "\<exists>h1 d1. BaseAPI__from_model ext model h = (doc, h1) \<and> h1 doc = Some d1
           \<and> map_of d1 ''liveaction'' = Some (HRef a) \<and> h1 a = Some l
           \<and> distinct (map fst d1) \<and> fst ` set d1 \<subseteq> insert ''id'' (fst ` set d)"
proof -
  obtain son hs where tm: "to_mongo ext model h = (son, hs)"
    by (cases "to_mongo ext model h")
  show ?thesis
  proof (cases "map_of d ''_id''")
    case None
    with assms tm show ?thesis by (auto simp: BaseAPI__from_model_def)
  next
    case (Some v)
    have "fst ` set (AList.update ''id'' (HStr (str ext v)) (AList.delete ''_id'' d))
            \<subseteq> insert ''id'' (fst ` set d)"
      using dom_delete_subset [of "''_id''" d] by (auto simp: dom_update)
    with Some assms tm show ?thesis
      by (simp add: BaseAPI__from_model_def update_conv' delete_conv' distinct_update
            distinct_delete)
  qed
qed

lemma format_timestamps_both:
  assumes "h a = Some l" and "map_of l ''start_timestamp'' = Some ts"
      and "map_of l ''end_timestamp'' = Some te" and "te \<noteq> HNone"
      and "isotime_format ext ts = Inr fs" and "isotime_format ext te = Inr fe"
  shows "format_timestamps ext (HRef a) h
           = (Inr (), h(a \<mapsto> AList.update ''start_timestamp'' fs
                                (AList.update ''end_timestamp'' fe l)))"
  using assms
  by (simp add: format_timestamps_def subscript_def getitem_def setitem_def Let_def)

lemma map_of_set_model_attr:
  "map_of (set_model_attr ext h instance attr m) k =
     (if k = attr \<and> (htruthy h (case map_of instance attr of
                                     None \<Rightarrow> default_of ext attr | Some v \<Rightarrow> v)
                       \<or> required ext attr)
      then Some (case map_of instance attr of None \<Rightarrow> default_of ext attr | Some v \<Rightarrow> v)
      else map_of m k)"
  by (simp add: set_model_attr_def Let_def update_conv')

lemma map_of_fold_set_model_attr:
  "map_of (fold (set_model_attr ext h instance) attrs m) k =
     (if k \<in> set attrs \<and> (htruthy h (case map_of instance k of
                                           None \<Rightarrow> default_of ext k | Some v \<Rightarrow> v)
                             \<or> required ext k)
      then Some (case map_of instance k of None \<Rightarrow> default_of ext k | Some v \<Rightarrow> v)
      else map_of m k)"
proof (induction attrs arbitrary: m)
  case Nil
  show ?case by simp
next
  case (Cons attr attrs)
  show ?case
    using Cons.IH [of "set_model_attr ext h instance attr m"]
    by (cases "k = attr") (auto simp: map_of_set_model_attr)
qed

lemma to_model_liveaction_attr:
  assumes "map_of instance ''liveaction'' = Some v" and "htruthy h v"
  shows "map_of (fold (set_model_attr ext h instance) ActionExecutionAPI_properties m)
           ''liveaction'' = Some v"
proof -
  have "''liveaction'' \<in> set ActionExecutionAPI_properties"
    by (simp add: ActionExecutionAPI_properties_def)
  with assms show ?thesis by (simp add: map_of_fold_set_model_attr)
qed

lemma parse_timestamp_ok:
  assumes "h a = Some l" and "map_of l key = Some fs" and "isotime_parse ext fs = Inr ts"
  shows "parse_timestamp ext (HRef a) key h = (Inr (), h(a \<mapsto> AList.update key ts l))"
  using assms
  by (simp add: parse_timestamp_def subscript_def getitem_def setitem_def)

text \<open>
  When the \<open>liveaction\<close> of the document has both timestamps, the formats succeed,
  \<^verbatim>\<open>isotime.parse\<close> gives back what \<^verbatim>\<open>isotime.format\<close> was given, the validator accepts
  and no key of the document is \<open>self\<close> or a name that \<^verbatim>\<open>setattr\<close> refuses,
  \<^verbatim>\<open>to_model\<close> after \<^verbatim>\<open>from_model\<close> returns a model whose \<open>liveaction\<close> has the original
  timestamps.
\<close>

lemma round_trip_with_both_timestamps:
  assumes ext: "unescape_chars ext (fst (to_mongo ext model h)) (snd (to_mongo ext model h))
                  = (doc, h0)"
      and d: "h0 doc = Some d" "distinct (map fst d)"
        "fst ` set d \<inter> insert ''self'' reserved_names = {}"
      and la: "map_of d ''liveaction'' = Some (HRef a)" "a \<noteq> doc" "h0 a = Some l"
      and ts: "map_of l ''start_timestamp'' = Some ts"
      and te: "map_of l ''end_timestamp'' = Some te" "te \<noteq> HNone"
      and fmt: "isotime_format ext ts = Inr fs" "isotime_format ext te = Inr fe"
      and prs: "isotime_parse ext fs = Inr ts" "isotime_parse ext fe = Inr te"
      and valid: "\<And>hp kw. validate ext hp kw = None"
  shows "\<exists>inst h1 m h2 l'.
           ActionExecutionAPI_from_model ext model h = (Inr inst, h1)
           \<and> ActionExecutionAPI_to_model ext inst h1 = (Inr m, h2)
           \<and> map_of m ''liveaction'' = Some (HRef a) \<and> h2 a = Some l'
           \<and> map_of l' ''start_timestamp'' = Some ts
           \<and> map_of l' ''end_timestamp'' = Some te"
proof -
  obtain hb d1 where fm: "BaseAPI__from_model ext model h = (doc, hb)"
      and d1: "hb doc = Some d1" "map_of d1 ''liveaction'' = Some (HRef a)" "hb a = Some l"
        "distinct (map fst d1)" "fst ` set d1 \<subseteq> insert ''id'' (fst ` set d)"
    using from_model_doc_liveaction_kept [OF ext d(1) la(1,2,3) d(2)] by blast
  define l2 where "l2 = AList.update ''start_timestamp'' fs (AList.update ''end_timestamp'' fe l)"
  define h1 where "h1 = hb(a \<mapsto> l2)"
  have ft: "format_timestamps ext (HRef a) hb = (Inr (), h1)"
    unfolding h1_def l2_def using d1(3) ts te fmt by (rule format_timestamps_both)
  have h1doc: "h1 doc = Some d1" using d1(1) la(2) by (simp add: h1_def)
  have h1a: "h1 a = Some l2" by (simp add: h1_def)
  have tr: "htruthy h1 (HRef a)" by (simp add: h1a l2_def)
  define attrs where "attrs = filter (\<lambda>item. htruthy h1 (snd item)) d1"
  define inst where "inst = fold (\<lambda>item. AList.update (fst item) (snd item)) attrs ([] :: hdict)"
  have "map_of attrs ''liveaction'' = Some (HRef a)"
    unfolding attrs_def using d1(2) tr by (intro map_of_filter_keep) simp_all
  then have mem: "(''liveaction'', HRef a) \<in> set attrs" by (rule map_of_SomeD)
  have "distinct (map fst attrs)"
    unfolding attrs_def using d1(4) by (rule distinct_map_filter)
  from fold_update_item [OF this mem]
  have il: "map_of inst ''liveaction'' = Some (HRef a)" by (simp add: inst_def)
  have keys: "fst ` set attrs \<subseteq> insert ''id'' (fst ` set d)"
    using d1(5) by (auto simp: attrs_def)
  have noself: "''self'' \<notin> fst ` set attrs"
    using keys d(3) by auto
  have nores: "fst ` set attrs \<inter> reserved_names = {}"
    using keys d(3) by (auto simp: reserved_names_def)
  have ni: "new_instance ext h1 attrs = (Inr inst, h1)"
    using new_instance_plain [OF noself _ nores, of ext h1] valid
    by (simp add: inst_def)
  have fr_ok: "ActionExecutionAPI_from_model ext model h = (Inr inst, h1)"
    using fm d1(1,2) ft h1doc ni
    by (simp add: ActionExecutionAPI_from_model_def getitem_def attrs_def)
  define m where "m = fold (set_model_attr ext h1 inst) ActionExecutionAPI_properties (new_model ext)"
  have ml: "map_of m ''liveaction'' = Some (HRef a)"
    unfolding m_def using il tr by (rule to_model_liveaction_attr)
  define l3 where "l3 = AList.update ''start_timestamp'' ts l2"
  define l4 where "l4 = AList.update ''end_timestamp'' te l3"
  have p1: "parse_timestamp ext (HRef a) ''start_timestamp'' h1 = (Inr (), h1(a \<mapsto> l3))"
    unfolding l3_def using h1a _ prs(1)
    by (rule parse_timestamp_ok) (simp add: l2_def update_conv')
  have p2: "parse_timestamp ext (HRef a) ''end_timestamp'' (h1(a \<mapsto> l3))
              = (Inr (), (h1(a \<mapsto> l3))(a \<mapsto> l4))"
    unfolding l4_def
    by (rule parse_timestamp_ok [OF _ _ prs(2)]) (simp_all add: l3_def l2_def update_conv')
  have to_ok: "ActionExecutionAPI_to_model ext inst h1 = (Inr m, (h1(a \<mapsto> l3))(a \<mapsto> l4))"
    using ml p1 p2 by (simp add: ActionExecutionAPI_to_model_def m_def [symmetric])
  have "map_of l4 ''start_timestamp'' = Some ts" "map_of l4 ''end_timestamp'' = Some te"
    by (simp_all add: l4_def l3_def update_conv')
  with fr_ok to_ok ml show ?thesis by auto
qed

text \<open>
  Claim C3 at a running execution, whose document has an action, a runner and a
  \<open>liveaction\<close> with a start timestamp and no end timestamp: \<^verbatim>\<open>from_model\<close> formats the
  start timestamp and returns the API object (the document has every required property),
  and \<^verbatim>\<open>to_model\<close> on that object raises \<^verbatim>\<open>KeyError\<close> at
  \<^verbatim>\<open>model.liveaction['end_timestamp']\<close>.
\<close>

theorem to_model_raises_without_end_timestamp:
  "fst (ActionExecutionAPI_from_model ex_externals 0 ex_running)
     = Inr [(''liveaction'', HRef 21), (''action'', HRef 22), (''runner'', HRef 23),
            (''id'', HStr ''54c6bb640640fd5211edef0d'')]
   \<and> snd (ActionExecutionAPI_from_model ex_externals 0 ex_running) 21
     = Some [(''status'', HStr ''running''),
             (''start_timestamp'', HStr ''1970-01-01T00:01:40.000000Z'')]
   \<and> fst (ActionExecutionAPI_to_model ex_externals
            [(''liveaction'', HRef 21), (''action'', HRef 22), (''runner'', HRef 23),
             (''id'', HStr ''54c6bb640640fd5211edef0d'')]
            (snd (ActionExecutionAPI_from_model ex_externals 0 ex_running)))
     = Inl (KeyError ''end_timestamp'')"
  by (simp add: conv_defs Let_def)

end
